theory Spec2Isabelle
  imports Complex_Main
begin

text \<open>
  The agent orchestration of the chart assistant: the tool catalog and its dispatcher,
  the extraction of structured output from a reply, the goal-oriented engine, intent
  recognition and routing in the session manager, and one tool body on shared objects.
  Definitions follow the Python sources function by function; what a function raises is
  a value \<open>Inl\<close> of its result, and what it changes is returned with its result.
\<close>

section \<open>Python values\<close>

text \<open>
  A Python \<^verbatim>\<open>str\<close> is a sequence of Unicode code points, so \<^verbatim>\<open>len\<close> is the length of
  the list and \<^verbatim>\<open>in\<close> is the infix test on lists.  ASCII literals of the source are
  written through \<open>str_of\<close>; other literals are given by their code points.
\<close>

type_synonym pystr = "nat list"

definition str_of :: "string \<Rightarrow> pystr" where
  "str_of s = map of_char s"

text \<open>
  The values that travel through the orchestration code: what \<^verbatim>\<open>json.loads\<close> produces
  (null, booleans, numbers, strings, arrays, objects with string keys) and the results
  of f-strings.  An f-string is kept as the list of its parts, \<open>PFmt\<close>, the literal
  segments as \<open>PStr\<close> and each interpolated value as it is: the text that \<^verbatim>\<open>str()\<close>
  makes of a value is not modelled.  A finite float is given by its rational value.
  A dictionary keeps insertion order, so it is an association list.
\<close>

datatype pyval =
    PNone
  | PBool bool
  | PInt int
  | PFloat rat
  | PStr pystr
  | PFmt "pyval list"
  | PList "pyval list"
  | PDict "(pystr \<times> pyval) list"

type_synonym pydict = "(pystr \<times> pyval) list"

text \<open>Truth value testing, \<^verbatim>\<open>if x\<close> and \<^verbatim>\<open>not x\<close>.  Every f-string of the program has
  a non-empty literal segment, so its result is a non-empty string.\<close>

fun truthy :: "pyval \<Rightarrow> bool" where
  "truthy PNone = False"
| "truthy (PBool b) = b"
| "truthy (PInt i) = (i \<noteq> 0)"
| "truthy (PFloat r) = (r \<noteq> 0)"
| "truthy (PStr s) = (s \<noteq> [])"
| "truthy (PFmt ps) = True"
| "truthy (PList xs) = (xs \<noteq> [])"
| "truthy (PDict d) = (d \<noteq> [])"

text \<open>\<^verbatim>\<open>d.get(k)\<close>, \<^verbatim>\<open>d.get(k, v)\<close>, \<^verbatim>\<open>k in d\<close> and \<^verbatim>\<open>d[k] = v\<close>: an existing key keeps
  its position, a new key goes to the end.\<close>

definition dict_get :: "pydict \<Rightarrow> pystr \<Rightarrow> pyval option" where
  "dict_get d k = map_of d k"

definition dict_get_default :: "pydict \<Rightarrow> pystr \<Rightarrow> pyval \<Rightarrow> pyval" where
  "dict_get_default d k v = (case dict_get d k of None \<Rightarrow> v | Some x \<Rightarrow> x)"

definition dict_has :: "pydict \<Rightarrow> pystr \<Rightarrow> bool" where
  "dict_has d k = (k \<in> set (map fst d))"

fun dict_set :: "pydict \<Rightarrow> pystr \<Rightarrow> pyval \<Rightarrow> pydict" where
  "dict_set [] k v = [(k, v)]"
| "dict_set ((k', v') # d) k v = (if k' = k then (k, v) # d else (k', v') # dict_set d k v)"

text \<open>\<^verbatim>\<open>{k: v for k, v in d.items() if k != name}\<close>\<close>

definition dict_without :: "pydict \<Rightarrow> pystr \<Rightarrow> pydict" where
  "dict_without d name = filter (\<lambda>(k, v). k \<noteq> name) d"

text \<open>An exception: its class name, \<^verbatim>\<open>str(e)\<close> and the text of
  \<^verbatim>\<open>traceback.format_exc()\<close>.  The exceptions are the errors, the subclasses of
  \<^verbatim>\<open>Exception\<close>, which \<^verbatim>\<open>except Exception\<close> catches; \<^verbatim>\<open>KeyboardInterrupt\<close> and
  \<^verbatim>\<open>SystemExit\<close> are not among them.\<close>

datatype pyexn = PyExn pystr pyval pyval

definition raise :: "string \<Rightarrow> pyexn" where
  "raise cls = PyExn (str_of cls) PNone PNone"

type_synonym timestamp = nat

section \<open>Tool catalog: tools/tool\_registry.py\<close>

text \<open>
  A tool body is called as \<^verbatim>\<open>tool_function(**params)\<close>: it either raises or returns a
  value.  Binding the keyword arguments is part of the call, so a body also stands for
  the \<^verbatim>\<open>TypeError\<close> of a missing or unexpected argument.
\<close>

type_synonym tool_function = "pydict \<Rightarrow> pyexn + pyval"

record param_spec =
  ptype :: pystr
  required :: bool
  dflt :: "pyval option"

record tool_info =
  tool_fn :: tool_function
  category :: pystr
  description :: pystr
  params :: "(pystr \<times> param_spec) list"

type_synonym registry = "(pystr \<times> tool_info) list"

definition common_tools :: "(pystr \<Rightarrow> tool_function) \<Rightarrow> registry" where
  "common_tools impl =
   [(str_of ''get_data_summary'',
      \<lparr>tool_fn = impl (str_of ''common.get_data_summary''), category = str_of ''perception'',
       description = [33719, 21462, 25968, 25454, 32479, 35745, 25688, 35201],
       params =
        [(str_of ''vega_spec'', \<lparr>ptype = str_of ''dict'', required = True, dflt = None\<rparr>),
         (str_of ''scope'', \<lparr>ptype = str_of ''str'', required = False, dflt = Some (PStr (str_of ''all''))\<rparr>)]\<rparr>),
    (str_of ''get_tooltip_data'',
      \<lparr>tool_fn = impl (str_of ''common.get_tooltip_data''), category = str_of ''perception'',
       description = [33719, 21462, 24037, 20855, 25552, 31034, 25968, 25454],
       params =
        [(str_of ''vega_spec'', \<lparr>ptype = str_of ''dict'', required = True, dflt = None\<rparr>),
         (str_of ''position'', \<lparr>ptype = str_of ''list'', required = True, dflt = None\<rparr>)]\<rparr>),
    (str_of ''zoom'',
      \<lparr>tool_fn = impl (str_of ''common.zoom''), category = str_of ''action'',
       description = [32553, 25918, 21040, 25351, 23450, 21306, 22495],
       params =
        [(str_of ''vega_spec'', \<lparr>ptype = str_of ''dict'', required = True, dflt = None\<rparr>),
         (str_of ''area'', \<lparr>ptype = str_of ''list'', required = True, dflt = None\<rparr>)]\<rparr>),
    (str_of ''filter'',
      \<lparr>tool_fn = impl (str_of ''common.filter''), category = str_of ''action'',
       description = [25353, 32500, 24230, 31579, 36873, 25968, 25454],
       params =
        [(str_of ''vega_spec'', \<lparr>ptype = str_of ''dict'', required = True, dflt = None\<rparr>),
         (str_of ''dimension'', \<lparr>ptype = str_of ''str'', required = True, dflt = None\<rparr>),
         (str_of ''range'', \<lparr>ptype = str_of ''list'', required = True, dflt = None\<rparr>)]\<rparr>),
    (str_of ''brush'',
      \<lparr>tool_fn = impl (str_of ''common.brush''), category = str_of ''action'',
       description = [21047, 36873, 21306, 22495],
       params =
        [(str_of ''vega_spec'', \<lparr>ptype = str_of ''dict'', required = True, dflt = None\<rparr>),
         (str_of ''area'', \<lparr>ptype = str_of ''list'', required = True, dflt = None\<rparr>)]\<rparr>),
    (str_of ''change_encoding'',
      \<lparr>tool_fn = impl (str_of ''common.change_encoding''), category = str_of ''action'',
       description = [26356, 25913, 32534, 30721, 26144, 23556],
       params =
        [(str_of ''vega_spec'', \<lparr>ptype = str_of ''dict'', required = True, dflt = None\<rparr>),
         (str_of ''channel'', \<lparr>ptype = str_of ''str'', required = True, dflt = None\<rparr>),
         (str_of ''field_name'', \<lparr>ptype = str_of ''str'', required = True, dflt = None\<rparr>)]\<rparr>),
    (str_of ''highlight'',
      \<lparr>tool_fn = impl (str_of ''common.highlight''), category = str_of ''action'',
       description = [39640, 20142, 31867, 21035],
       params =
        [(str_of ''vega_spec'', \<lparr>ptype = str_of ''dict'', required = True, dflt = None\<rparr>),
         (str_of ''category'', \<lparr>ptype = str_of ''any'', required = True, dflt = None\<rparr>)]\<rparr>),
    (str_of ''render_chart'',
      \<lparr>tool_fn = impl (str_of ''common.render_chart''), category = str_of ''action'',
       description = [28210, 26579, 22270, 34920],
       params =
        [(str_of ''vega_spec'', \<lparr>ptype = str_of ''dict'', required = True, dflt = None\<rparr>)]\<rparr>)]"

definition bar_chart_tools_dict :: "(pystr \<Rightarrow> tool_function) \<Rightarrow> registry" where
  "bar_chart_tools_dict impl =
   [(str_of ''sort_bars'',
      \<lparr>tool_fn = impl (str_of ''bar_chart_tools.sort_bars''), category = str_of ''action'',
       description = [25353, 20540, 25490, 24207, 26465, 24418],
       params =
        [(str_of ''vega_spec'', \<lparr>ptype = str_of ''dict'', required = True, dflt = None\<rparr>),
         (str_of ''order'', \<lparr>ptype = str_of ''str'', required = False, dflt = Some (PStr (str_of ''descending''))\<rparr>)]\<rparr>),
    (str_of ''filter_categories'',
      \<lparr>tool_fn = impl (str_of ''bar_chart_tools.filter_categories''), category = str_of ''action'',
       description = [31579, 36873, 29305, 23450, 31867, 21035],
       params =
        [(str_of ''vega_spec'', \<lparr>ptype = str_of ''dict'', required = True, dflt = None\<rparr>),
         (str_of ''categories'', \<lparr>ptype = str_of ''list'', required = True, dflt = None\<rparr>)]\<rparr>),
    (str_of ''highlight_top_n'',
      \<lparr>tool_fn = impl (str_of ''bar_chart_tools.highlight_top_n''), category = str_of ''action'',
       description = [39640, 20142, 21069, 78, 20010, 26465, 24418],
       params =
        [(str_of ''vega_spec'', \<lparr>ptype = str_of ''dict'', required = True, dflt = None\<rparr>),
         (str_of ''n'', \<lparr>ptype = str_of ''int'', required = False, dflt = Some (PInt 2)\<rparr>),
         (str_of ''order'', \<lparr>ptype = str_of ''str'', required = False, dflt = Some (PStr (str_of ''descending''))\<rparr>)]\<rparr>),
    (str_of ''compare_groups'',
      \<lparr>tool_fn = impl (str_of ''bar_chart_tools.compare_groups''), category = str_of ''analysis'',
       description = [32452, 38388, 23545, 27604],
       params =
        [(str_of ''vega_spec'', \<lparr>ptype = str_of ''dict'', required = True, dflt = None\<rparr>),
         (str_of ''group_field'', \<lparr>ptype = str_of ''str'', required = True, dflt = None\<rparr>)]\<rparr>)]"

definition line_chart_tools_dict :: "(pystr \<Rightarrow> tool_function) \<Rightarrow> registry" where
  "line_chart_tools_dict impl =
   [(str_of ''zoom_time_range'',
      \<lparr>tool_fn = impl (str_of ''line_chart_tools.zoom_time_range''), category = str_of ''action'',
       description = [32553, 25918, 26102, 38388, 33539, 22260],
       params =
        [(str_of ''vega_spec'', \<lparr>ptype = str_of ''dict'', required = True, dflt = None\<rparr>),
         (str_of ''start'', \<lparr>ptype = str_of ''str'', required = True, dflt = None\<rparr>),
         (str_of ''end'', \<lparr>ptype = str_of ''str'', required = True, dflt = None\<rparr>)]\<rparr>),
    (str_of ''highlight_trend'',
      \<lparr>tool_fn = impl (str_of ''line_chart_tools.highlight_trend''), category = str_of ''action'',
       description = [39640, 20142, 36235, 21183],
       params =
        [(str_of ''vega_spec'', \<lparr>ptype = str_of ''dict'', required = True, dflt = None\<rparr>),
         (str_of ''trend_type'', \<lparr>ptype = str_of ''str'', required = False, dflt = Some (PStr (str_of ''increasing''))\<rparr>)]\<rparr>),
    (str_of ''compare_series'',
      \<lparr>tool_fn = impl (str_of ''line_chart_tools.compare_series''), category = str_of ''analysis'',
       description = [23545, 27604, 22810, 26465, 32447],
       params =
        [(str_of ''vega_spec'', \<lparr>ptype = str_of ''dict'', required = True, dflt = None\<rparr>),
         (str_of ''series_field'', \<lparr>ptype = str_of ''str'', required = True, dflt = None\<rparr>)]\<rparr>),
    (str_of ''detect_anomalies'',
      \<lparr>tool_fn = impl (str_of ''line_chart_tools.detect_anomalies''), category = str_of ''analysis'',
       description = [26816, 27979, 24322, 24120, 28857],
       params =
        [(str_of ''vega_spec'', \<lparr>ptype = str_of ''dict'', required = True, dflt = None\<rparr>),
         (str_of ''threshold'', \<lparr>ptype = str_of ''float'', required = False, dflt = Some (PFloat 2)\<rparr>)]\<rparr>)]"

definition scatter_tools :: "(pystr \<Rightarrow> tool_function) \<Rightarrow> registry" where
  "scatter_tools impl =
   [(str_of ''select_region'',
      \<lparr>tool_fn = impl (str_of ''scatter_plot_tools.select_region''), category = str_of ''action'',
       description = [36873, 25321, 21306, 22495],
       params =
        [(str_of ''vega_spec'', \<lparr>ptype = str_of ''dict'', required = True, dflt = None\<rparr>),
         (str_of ''x_range'', \<lparr>ptype = str_of ''tuple'', required = True, dflt = None\<rparr>),
         (str_of ''y_range'', \<lparr>ptype = str_of ''tuple'', required = True, dflt = None\<rparr>)]\<rparr>),
    (str_of ''identify_clusters'',
      \<lparr>tool_fn = impl (str_of ''scatter_plot_tools.identify_clusters''), category = str_of ''analysis'',
       description = [35782, 21035, 32858, 31867],
       params =
        [(str_of ''vega_spec'', \<lparr>ptype = str_of ''dict'', required = True, dflt = None\<rparr>),
         (str_of ''n_clusters'', \<lparr>ptype = str_of ''int'', required = False, dflt = Some (PInt 3)\<rparr>),
         (str_of ''method'', \<lparr>ptype = str_of ''str'', required = False, dflt = Some (PStr (str_of ''kmeans''))\<rparr>)]\<rparr>),
    (str_of ''calculate_correlation'',
      \<lparr>tool_fn = impl (str_of ''scatter_plot_tools.calculate_correlation''), category = str_of ''analysis'',
       description = [35745, 31639, 30456, 20851, 24615],
       params =
        [(str_of ''vega_spec'', \<lparr>ptype = str_of ''dict'', required = True, dflt = None\<rparr>),
         (str_of ''method'', \<lparr>ptype = str_of ''str'', required = False, dflt = Some (PStr (str_of ''pearson''))\<rparr>)]\<rparr>),
    (str_of ''zoom_dense_area'',
      \<lparr>tool_fn = impl (str_of ''scatter_plot_tools.zoom_dense_area''), category = str_of ''action'',
       description = [25918, 22823, 23494, 38598, 21306, 22495],
       params =
        [(str_of ''vega_spec'', \<lparr>ptype = str_of ''dict'', required = True, dflt = None\<rparr>),
         (str_of ''x_range'', \<lparr>ptype = str_of ''tuple'', required = True, dflt = None\<rparr>),
         (str_of ''y_range'', \<lparr>ptype = str_of ''tuple'', required = True, dflt = None\<rparr>)]\<rparr>)]"

definition heatmap_tools_dict :: "(pystr \<Rightarrow> tool_function) \<Rightarrow> registry" where
  "heatmap_tools_dict impl =
   [(str_of ''adjust_color_scale'',
      \<lparr>tool_fn = impl (str_of ''heatmap_tools.adjust_color_scale''), category = str_of ''action'',
       description = [35843, 25972, 39068, 33394, 27604, 20363],
       params =
        [(str_of ''vega_spec'', \<lparr>ptype = str_of ''dict'', required = True, dflt = None\<rparr>),
         (str_of ''scheme'', \<lparr>ptype = str_of ''str'', required = False, dflt = Some (PStr (str_of ''viridis''))\<rparr>)]\<rparr>),
    (str_of ''filter_cells'',
      \<lparr>tool_fn = impl (str_of ''heatmap_tools.filter_cells''), category = str_of ''action'',
       description = [31579, 36873, 21333, 20803, 26684],
       params =
        [(str_of ''vega_spec'', \<lparr>ptype = str_of ''dict'', required = True, dflt = None\<rparr>),
         (str_of ''min_value'', \<lparr>ptype = str_of ''float'', required = True, dflt = None\<rparr>),
         (str_of ''max_value'', \<lparr>ptype = str_of ''float'', required = True, dflt = None\<rparr>)]\<rparr>),
    (str_of ''highlight_region'',
      \<lparr>tool_fn = impl (str_of ''heatmap_tools.highlight_region''), category = str_of ''action'',
       description = [39640, 20142, 21306, 22495],
       params =
        [(str_of ''vega_spec'', \<lparr>ptype = str_of ''dict'', required = True, dflt = None\<rparr>),
         (str_of ''x_values'', \<lparr>ptype = str_of ''list'', required = True, dflt = None\<rparr>),
         (str_of ''y_values'', \<lparr>ptype = str_of ''list'', required = True, dflt = None\<rparr>)]\<rparr>),
    (str_of ''cluster_rows_cols'',
      \<lparr>tool_fn = impl (str_of ''heatmap_tools.cluster_rows_cols''), category = str_of ''action'',
       description = [23545, 34892, 21015, 36827, 34892, 32858, 31867, 25490, 24207],
       params =
        [(str_of ''vega_spec'', \<lparr>ptype = str_of ''dict'', required = True, dflt = None\<rparr>),
         (str_of ''cluster_rows'', \<lparr>ptype = str_of ''bool'', required = False, dflt = Some (PBool True)\<rparr>),
         (str_of ''cluster_cols'', \<lparr>ptype = str_of ''bool'', required = False, dflt = Some (PBool True)\<rparr>),
         (str_of ''method'', \<lparr>ptype = str_of ''str'', required = False, dflt = Some (PStr (str_of ''sum''))\<rparr>)]\<rparr>),
    (str_of ''select_submatrix'',
      \<lparr>tool_fn = impl (str_of ''heatmap_tools.select_submatrix''), category = str_of ''action'',
       description = [36873, 25321, 23376, 30697, 38453],
       params =
        [(str_of ''vega_spec'', \<lparr>ptype = str_of ''dict'', required = True, dflt = None\<rparr>),
         (str_of ''x_values'', \<lparr>ptype = str_of ''list'', required = False, dflt = None\<rparr>),
         (str_of ''y_values'', \<lparr>ptype = str_of ''list'', required = False, dflt = None\<rparr>)]\<rparr>)]"

definition parallel_coords_tools_dict :: "(pystr \<Rightarrow> tool_function) \<Rightarrow> registry" where
  "parallel_coords_tools_dict impl =
   [(str_of ''filter_dimension'',
      \<lparr>tool_fn = impl (str_of ''parallel_coordinates_tools.filter_dimension''), category = str_of ''action'',
       description = [25353, 32500, 24230, 31579, 36873],
       params =
        [(str_of ''vega_spec'', \<lparr>ptype = str_of ''dict'', required = True, dflt = None\<rparr>),
         (str_of ''dimension'', \<lparr>ptype = str_of ''str'', required = True, dflt = None\<rparr>),
         (str_of ''range'', \<lparr>ptype = str_of ''list'', required = True, dflt = None\<rparr>)]\<rparr>),
    (str_of ''highlight_cluster'',
      \<lparr>tool_fn = impl (str_of ''parallel_coordinates_tools.highlight_cluster''), category = str_of ''action'',
       description = [39640, 20142, 32858, 31867],
       params =
        [(str_of ''vega_spec'', \<lparr>ptype = str_of ''dict'', required = True, dflt = None\<rparr>),
         (str_of ''cluster_id'', \<lparr>ptype = str_of ''int'', required = True, dflt = None\<rparr>)]\<rparr>),
    (str_of ''reorder_dimensions'',
      \<lparr>tool_fn = impl (str_of ''parallel_coordinates_tools.reorder_dimensions''), category = str_of ''action'',
       description = [37325, 26032, 25490, 24207, 32500, 24230],
       params =
        [(str_of ''vega_spec'', \<lparr>ptype = str_of ''dict'', required = True, dflt = None\<rparr>),
         (str_of ''dimension_order'', \<lparr>ptype = str_of ''list'', required = True, dflt = None\<rparr>)]\<rparr>)]"

definition sankey_tools_dict :: "(pystr \<Rightarrow> tool_function) \<Rightarrow> registry" where
  "sankey_tools_dict impl =
   [(str_of ''filter_flow'',
      \<lparr>tool_fn = impl (str_of ''sankey_tools.filter_flow''), category = str_of ''action'',
       description = [31579, 36873, 27969, 37327],
       params =
        [(str_of ''vega_spec'', \<lparr>ptype = str_of ''dict'', required = True, dflt = None\<rparr>),
         (str_of ''min_value'', \<lparr>ptype = str_of ''float'', required = True, dflt = None\<rparr>)]\<rparr>),
    (str_of ''highlight_path'',
      \<lparr>tool_fn = impl (str_of ''sankey_tools.highlight_path''), category = str_of ''action'',
       description = [39640, 20142, 36335, 24452],
       params =
        [(str_of ''vega_spec'', \<lparr>ptype = str_of ''dict'', required = True, dflt = None\<rparr>),
         (str_of ''source'', \<lparr>ptype = str_of ''str'', required = True, dflt = None\<rparr>),
         (str_of ''target'', \<lparr>ptype = str_of ''str'', required = True, dflt = None\<rparr>)]\<rparr>),
    (str_of ''trace_node'',
      \<lparr>tool_fn = impl (str_of ''sankey_tools.trace_node''), category = str_of ''action'',
       description = [36861, 36394, 33410, 28857],
       params =
        [(str_of ''vega_spec'', \<lparr>ptype = str_of ''dict'', required = True, dflt = None\<rparr>),
         (str_of ''node_name'', \<lparr>ptype = str_of ''str'', required = True, dflt = None\<rparr>)]\<rparr>)]"

text \<open>\<^verbatim>\<open>_register_all_tools\<close> stores the seven groups in this order; the implementing
  functions of the tool modules are the parameter \<open>impl\<close>, looked up by their qualified
  name.\<close>

definition tool_registry :: "(pystr \<Rightarrow> tool_function) \<Rightarrow> registry" where
  "tool_registry impl =
     common_tools impl @ bar_chart_tools_dict impl @ line_chart_tools_dict impl
     @ scatter_tools impl @ heatmap_tools_dict impl @ parallel_coords_tools_dict impl
     @ sankey_tools_dict impl"

text \<open>\<^verbatim>\<open>self._tools.get(tool_name)\<close>: a list or a dict is unhashable and raises
  \<^verbatim>\<open>TypeError\<close>; any other value that is not a registered name gives \<^verbatim>\<open>None\<close>.\<close>

definition get_tool :: "registry \<Rightarrow> pyval \<Rightarrow> pyexn + tool_info option" where
  "get_tool reg tool_name =
     (case tool_name of
        PStr n \<Rightarrow> Inr (map_of reg n)
      | PList xs \<Rightarrow> Inl (raise ''TypeError'')
      | PDict d \<Rightarrow> Inl (raise ''TypeError'')
      | _ \<Rightarrow> Inr None)"

definition list_all_tools :: "registry \<Rightarrow> pyval" where
  "list_all_tools reg = PList (map (\<lambda>(name, info). PStr name) reg)"

section \<open>Tool dispatcher: tools/tool\_executor.py\<close>

record execution_record =
  er_timestamp :: timestamp
  er_tool_name :: pyval
  er_params :: pydict
  er_result :: pydict
  er_success :: bool

text \<open>
  The state of a \<^verbatim>\<open>ToolExecutor\<close> is its \<^verbatim>\<open>execution_history\<close>.  \<open>body_calls\<close> is not a
  field of the Python object: it is the trace of the calls \<^verbatim>\<open>tool_function(**params)\<close>
  made so far, kept so that "the body is not invoked" can be stated.
\<close>

record executor =
  execution_history :: "execution_record list"
  body_calls :: "(pyval \<times> pydict) list"

record validation =
  valid :: bool
  errors :: "pyval list"

text \<open>\<^verbatim>\<open>_validate_params\<close> looks the tool up again and walks its parameter specs in
  order, collecting one message for every required parameter that is not a key of
  \<^verbatim>\<open>params\<close>.\<close>

definition missing_required :: "tool_info \<Rightarrow> pydict \<Rightarrow> pystr list" where
  "missing_required info ps =
     map fst (filter (\<lambda>(param_name, spec). required spec \<and> \<not> dict_has ps param_name) (params info))"

definition missing_message :: "pystr \<Rightarrow> pyval" where
  "missing_message param_name = PFmt [PStr (str_of ''Missing required parameter: ''), PStr param_name]"

definition validate_params :: "registry \<Rightarrow> pyval \<Rightarrow> pydict \<Rightarrow> pyexn + validation" where
  "validate_params reg tool_name ps =
     (case get_tool reg tool_name of
        Inl e \<Rightarrow> Inl e
      | Inr None \<Rightarrow> Inl (raise ''AttributeError'')
      | Inr (Some info) \<Rightarrow>
          (let errs = map missing_message (missing_required info ps)
           in Inr \<lparr>valid = (length errs = 0), errors = errs\<rparr>))"

text \<open>\<^verbatim>\<open>_fill_default_params\<close>: a copy of \<^verbatim>\<open>params\<close>, to which every parameter that is
  absent and has a \<^verbatim>\<open>'default'\<close> is added, in the order of the specs.\<close>

definition fill_default_params :: "tool_info \<Rightarrow> pydict \<Rightarrow> pydict" where
  "fill_default_params info ps =
     foldl (\<lambda>filled (param_name, spec).
              (case dflt spec of
                 Some v \<Rightarrow> if \<not> dict_has filled param_name then dict_set filled param_name v else filled
               | None \<Rightarrow> filled))
           ps (params info)"

text \<open>\<^verbatim>\<open>_record_execution\<close>: \<^verbatim>\<open>result.items()\<close> raises \<^verbatim>\<open>AttributeError\<close> when the
  result is not a dict, before anything is appended.  The history keeps its last 100
  entries.\<close>

definition limit_history :: "execution_record list \<Rightarrow> execution_record list" where
  "limit_history h = (if length h > 100 then drop (length h - 100) h else h)"

definition record_execution ::
  "executor \<Rightarrow> timestamp \<Rightarrow> pyval \<Rightarrow> pydict \<Rightarrow> pyval \<Rightarrow> bool \<Rightarrow> pyexn + executor" where
  "record_execution st now tool_name ps result ok =
     (case result of
        PDict r \<Rightarrow>
          (let params_for_log = dict_without ps (str_of ''vega_spec'');
               result_for_log = dict_without r (str_of ''vega_spec'');
               rec = \<lparr>er_timestamp = now, er_tool_name = tool_name, er_params = params_for_log,
                      er_result = result_for_log, er_success = ok\<rparr>
           in Inr (st\<lparr>execution_history := limit_history (execution_history st @ [rec])\<rparr>))
      | _ \<Rightarrow> Inl (raise ''AttributeError''))"

definition not_found_result :: "registry \<Rightarrow> pyval \<Rightarrow> pyval" where
  "not_found_result reg tool_name =
     PDict [(str_of ''success'', PBool False),
            (str_of ''error'', PFmt [PStr (str_of ''Tool '' @ [34]), tool_name, PStr (34 # str_of '' not found'')]),
            (str_of ''available_tools'', list_all_tools reg)]"

definition validation_failed_result :: "validation \<Rightarrow> pyval" where
  "validation_failed_result v =
     PDict [(str_of ''success'', PBool False),
            (str_of ''error'', PStr (str_of ''Parameter validation failed'')),
            (str_of ''details'', PList (errors v))]"

definition error_result :: "pyexn \<Rightarrow> pyval" where
  "error_result e =
     (case e of PyExn cls msg tb \<Rightarrow>
        PDict [(str_of ''success'', PBool False), (str_of ''error'', msg), (str_of ''traceback'', tb)])"

text \<open>The \<^verbatim>\<open>try\<close> block of \<^verbatim>\<open>execute\<close>: call the body, record, return the result.\<close>

definition try_tool ::
  "tool_info \<Rightarrow> timestamp \<Rightarrow> executor \<Rightarrow> pyval \<Rightarrow> pydict \<Rightarrow> pyexn + (pyval \<times> executor)" where
  "try_tool info now st tool_name ps =
     (case tool_fn info ps of
        Inl e \<Rightarrow> Inl e
      | Inr result \<Rightarrow>
          (case record_execution st now tool_name ps result True of
             Inl e \<Rightarrow> Inl e
           | Inr st' \<Rightarrow> Inr (result, st')))"

text \<open>
  \<^verbatim>\<open>execute(tool_name, params, validate)\<close>.  \<open>Inl\<close> is an exception that leaves
  \<^verbatim>\<open>execute\<close>; \<open>Inr\<close> is the returned value with the executor after the call.  \<open>now\<close> is
  what \<^verbatim>\<open>datetime.now().isoformat()\<close> gives during the call.
\<close>

definition execute ::
  "registry \<Rightarrow> timestamp \<Rightarrow> executor \<Rightarrow> pyval \<Rightarrow> pydict \<Rightarrow> bool \<Rightarrow> pyexn + (pyval \<times> executor)" where
  "execute reg now st tool_name ps validate =
     (case get_tool reg tool_name of
        Inl e \<Rightarrow> Inl e
      | Inr None \<Rightarrow> Inr (not_found_result reg tool_name, st)
      | Inr (Some info) \<Rightarrow>
          (case (if validate then validate_params reg tool_name ps
                 else Inr \<lparr>valid = True, errors = []\<rparr>) of
             Inl e \<Rightarrow> Inl e
           | Inr validation_result \<Rightarrow>
               if validate \<and> \<not> valid validation_result
               then Inr (validation_failed_result validation_result, st)
               else
                 (let filled = fill_default_params info ps;
                      st1 = st\<lparr>body_calls := body_calls st @ [(tool_name, filled)]\<rparr>
                  in case try_tool info now st1 tool_name filled of
                       Inr r \<Rightarrow> Inr r
                     | Inl e \<Rightarrow>
                         (case record_execution st1 now tool_name filled (error_result e) False of
                            Inl e' \<Rightarrow> Inl e'
                          | Inr st2 \<Rightarrow> Inr (error_result e, st2)))))"


text \<open>The executor after a call that reached the body: the call is traced and one record
  is appended to the history.\<close>

definition logged :: "executor \<Rightarrow> timestamp \<Rightarrow> pyval \<Rightarrow> pydict \<Rightarrow> pydict \<Rightarrow> bool \<Rightarrow> executor" where
  "logged st now tn filled r ok =
     st\<lparr>body_calls := body_calls st @ [(tn, filled)],
        execution_history := limit_history (execution_history st @
          [\<lparr>er_timestamp = now, er_tool_name = tn, er_params = dict_without filled (str_of ''vega_spec''),
            er_result = dict_without r (str_of ''vega_spec''), er_success = ok\<rparr>])\<rparr>"

section \<open>A tool body: tools/bar\_chart\_tools.py\<close>

text \<open>
  \<^verbatim>\<open>compare_groups(vega_spec, group_field)\<close>, called with keyword arguments: any other set
  of keys is a \<^verbatim>\<open>TypeError\<close>.  \<^verbatim>\<open>copy.deepcopy\<close> of a value is the value.  The two
  subscript assignments need \<^verbatim>\<open>new_spec\<close> and \<^verbatim>\<open>new_spec['encoding']\<close> to be dicts and
  raise \<^verbatim>\<open>TypeError\<close> otherwise.
\<close>

definition binds_exactly :: "pydict \<Rightarrow> pystr list \<Rightarrow> bool" where
  "binds_exactly ps names =
     (list_all (\<lambda>n. dict_has ps n) names \<and> list_all (\<lambda>(k, v). k \<in> set names) ps)"

definition compare_groups :: tool_function where
  "compare_groups ps =
     (if \<not> binds_exactly ps [str_of ''vega_spec'', str_of ''group_field''] then Inl (raise ''TypeError'')
      else
        (case (dict_get ps (str_of ''vega_spec''), dict_get ps (str_of ''group_field'')) of
           (Some (PDict vega_spec), Some group_field) \<Rightarrow>
             (let new_spec = (if \<not> dict_has vega_spec (str_of ''encoding'')
                              then dict_set vega_spec (str_of ''encoding'') (PDict [])
                              else vega_spec)
              in case dict_get new_spec (str_of ''encoding'') of
                   Some (PDict encoding) \<Rightarrow>
                     Inr (PDict
                       [(str_of ''success'', PBool True),
                        (str_of ''operation'', PStr (str_of ''compare_groups'')),
                        (str_of ''vega_spec'',
                           PDict (dict_set new_spec (str_of ''encoding'')
                             (PDict (dict_set encoding (str_of ''color'')
                                (PDict [(str_of ''field'', group_field),
                                        (str_of ''type'', PStr (str_of ''nominal''))]))))),
                        (str_of ''message'', PFmt [PStr (str_of ''Grouped by ''), group_field])])
                 | _ \<Rightarrow> Inl (raise ''TypeError''))
         | _ \<Rightarrow> Inl (raise ''TypeError'')))"

text \<open>The implementations used where a concrete catalog is evaluated: the body above
  under its qualified name; the bodies that are not modelled raise.\<close>

definition modelled_impl :: "pystr \<Rightarrow> tool_function" where
  "modelled_impl qualname =
     (if qualname = str_of ''bar_chart_tools.compare_groups'' then compare_groups
      else (\<lambda>ps. Inl (raise ''NotImplementedError'')))"

definition new_executor :: executor where
  "new_executor = \<lparr>execution_history = [], body_calls = []\<rparr>"

section \<open>Structured-output extraction: core/utils/json\_utils.py\<close>

text \<open>
  \<^verbatim>\<open>text.find(c)\<close> and \<^verbatim>\<open>text.rfind(c)\<close> for a one-character needle: the index of the
  first, respectively last, occurrence, or \<open>-1\<close>.  \<^verbatim>\<open>text[i:j]\<close> is used with
  \<open>0 \<le> i \<le> j\<close> only.
\<close>

fun str_find :: "nat \<Rightarrow> pystr \<Rightarrow> int" where
  "str_find c [] = - 1"
| "str_find c (x # xs) =
     (if x = c then 0 else (let r = str_find c xs in if r = - 1 then - 1 else r + 1))"

definition str_rfind :: "nat \<Rightarrow> pystr \<Rightarrow> int" where
  "str_rfind c text =
     (let r = str_find c (rev text) in if r = - 1 then - 1 else int (length text) - 1 - r)"

definition str_slice :: "pystr \<Rightarrow> int \<Rightarrow> int \<Rightarrow> pystr" where
  "str_slice text i j = take (nat (j - i)) (drop (nat i) text)"

text \<open>
  \<^verbatim>\<open>json.loads\<close> belongs to the Python library and is a parameter \<open>loads\<close>: \<open>None\<close>
  stands for \<^verbatim>\<open>JSONDecodeError\<close>.  \<^verbatim>\<open>safe_json_loads\<close> turns the error into the default
  \<^verbatim>\<open>None\<close>.
\<close>

definition safe_json_loads :: "(pystr \<Rightarrow> pyval option) \<Rightarrow> pystr \<Rightarrow> pyval" where
  "safe_json_loads loads json_str = (case loads json_str of None \<Rightarrow> PNone | Some v \<Rightarrow> v)"

definition is_dict :: "pyval \<Rightarrow> bool" where
  "is_dict v = (case v of PDict d \<Rightarrow> True | _ \<Rightarrow> False)"

text \<open>The first half of \<^verbatim>\<open>extract_json_from_text\<close>: the dict it returns, if it returns
  there.\<close>

definition extract_dict :: "(pystr \<Rightarrow> pyval option) \<Rightarrow> pystr \<Rightarrow> pydict option" where
  "extract_dict loads text =
     (let start_idx = str_find 123 text in
      if start_idx \<noteq> - 1 then
        (let end_idx = str_rfind 125 text in
         if end_idx \<noteq> - 1 \<and> end_idx > start_idx then
           (let json_str = str_slice text start_idx (end_idx + 1);
                result = safe_json_loads loads json_str
            in if truthy result \<and> is_dict result
               then (case result of PDict d \<Rightarrow> Some d | _ \<Rightarrow> None)
               else None)
         else None)
      else None)"

text \<open>The second half: the value between the first \<^verbatim>\<open>[\<close> and the last \<^verbatim>\<open>]\<close> is parsed,
  and an empty dict is returned whether it is truthy or not.\<close>

definition extract_array :: "(pystr \<Rightarrow> pyval option) \<Rightarrow> pystr \<Rightarrow> pydict" where
  "extract_array loads text =
     (let start_idx = str_find 91 text in
      if start_idx \<noteq> - 1 then
        (let end_idx = str_rfind 93 text in
         if end_idx \<noteq> - 1 \<and> end_idx > start_idx then
           (let json_str = str_slice text start_idx (end_idx + 1);
                result = safe_json_loads loads json_str
            in if truthy result then [] else [])
         else [])
      else [])"

definition extract_json_from_text :: "(pystr \<Rightarrow> pyval option) \<Rightarrow> pystr \<Rightarrow> pydict" where
  "extract_json_from_text loads text =
     (case extract_dict loads text of
        Some d \<Rightarrow> d
      | None \<Rightarrow> extract_array loads text)"

subsection \<open>The two readings of "the object found in the text"\<close>

text \<open>
  What the specification describes: the first balanced \<^verbatim>\<open>{...}\<close> of the text, found by
  counting open and close characters from an open character on.
\<close>

fun balanced_rest :: "nat \<Rightarrow> nat \<Rightarrow> nat \<Rightarrow> pystr \<Rightarrow> pystr option" where
  "balanced_rest opn cls depth [] = None"
| "balanced_rest opn cls depth (x # xs) =
     (if x = cls then
        (if depth = 0 then Some [x]
         else map_option (\<lambda>r. x # r) (balanced_rest opn cls (depth - 1) xs))
      else if x = opn then map_option (\<lambda>r. x # r) (balanced_rest opn cls (Suc depth) xs)
      else map_option (\<lambda>r. x # r) (balanced_rest opn cls depth xs))"

fun first_balanced :: "nat \<Rightarrow> nat \<Rightarrow> pystr \<Rightarrow> pystr option" where
  "first_balanced opn cls [] = None"
| "first_balanced opn cls (x # xs) =
     (if x = opn then
        (case balanced_rest opn cls 0 xs of
           Some r \<Rightarrow> Some (x # r)
         | None \<Rightarrow> first_balanced opn cls xs)
      else first_balanced opn cls xs)"

text \<open>What the code takes: the text from the first open character to the last close
  character after it.\<close>

definition first_to_last :: "nat \<Rightarrow> nat \<Rightarrow> pystr \<Rightarrow> pystr option" where
  "first_to_last opn cls text =
     (let from_open = dropWhile (\<lambda>x. x \<noteq> opn) text;
          span = rev (dropWhile (\<lambda>x. x \<noteq> cls) (rev from_open))
      in if span = [] then None else Some span)"

subsection \<open>A reader for plain JSON texts\<close>

text \<open>
  \<^verbatim>\<open>json.loads\<close> on the texts that use objects, arrays, strings without escapes,
  integers, \<^verbatim>\<open>true\<close>, \<^verbatim>\<open>false\<close> and \<^verbatim>\<open>null\<close>, with blanks between the tokens: the whole
  text has to be one value, anything after it is \<^verbatim>\<open>Extra data\<close>.  A text with an
  escape, a fraction, an exponent or \<^verbatim>\<open>NaN\<close>/\<^verbatim>\<open>Infinity\<close> is outside this reader, which
  gives \<open>None\<close> for it; it is applied to texts without them.  The first argument
  bounds the number of nested calls; the length of the text is enough.
\<close>

definition is_ws :: "nat \<Rightarrow> bool" where
  "is_ws c = (c = 32 \<or> c = 9 \<or> c = 10 \<or> c = 13)"

definition skip_ws :: "pystr \<Rightarrow> pystr" where
  "skip_ws s = dropWhile is_ws s"

fun scan_string :: "pystr \<Rightarrow> (pystr \<times> pystr) option" where
  "scan_string [] = None"
| "scan_string (c # cs) =
     (if c = 34 then Some ([], cs)
      else if c = 92 \<or> c < 32 then None
      else map_option (\<lambda>(s, r). (c # s, r)) (scan_string cs))"

definition is_digit :: "nat \<Rightarrow> bool" where
  "is_digit c = (48 \<le> c \<and> c \<le> 57)"

definition digits_value :: "pystr \<Rightarrow> int" where
  "digits_value ds = foldl (\<lambda>a d. 10 * a + (int d - 48)) 0 ds"

definition scan_digits :: "pystr \<Rightarrow> (int \<times> pystr) option" where
  "scan_digits s =
     (case s of
        [] \<Rightarrow> None
      | c # cs \<Rightarrow>
          if c = 48 then Some (0, cs)
          else if is_digit c then Some (digits_value (takeWhile is_digit s), dropWhile is_digit s)
          else None)"

definition scan_int :: "pystr \<Rightarrow> (pyval \<times> pystr) option" where
  "scan_int s =
     (case (case s of
              [] \<Rightarrow> None
            | c # cs \<Rightarrow> if c = 45 then map_option (\<lambda>(i, r). (- i, r)) (scan_digits cs)
                        else scan_digits s) of
        None \<Rightarrow> None
      | Some (i, r) \<Rightarrow>
          (case r of
             [] \<Rightarrow> Some (PInt i, r)
           | c # cs \<Rightarrow> if c = 46 \<or> c = 101 \<or> c = 69 then None else Some (PInt i, r)))"

definition scan_atom :: "pystr \<Rightarrow> (pyval \<times> pystr) option" where
  "scan_atom s =
     (if take 4 s = str_of ''true'' then Some (PBool True, drop 4 s)
      else if take 5 s = str_of ''false'' then Some (PBool False, drop 5 s)
      else if take 4 s = str_of ''null'' then Some (PNone, drop 4 s)
      else scan_int s)"

fun parse_value :: "nat \<Rightarrow> pystr \<Rightarrow> (pyval \<times> pystr) option"
  and parse_members :: "nat \<Rightarrow> pydict \<Rightarrow> pystr \<Rightarrow> (pyval \<times> pystr) option"
  and parse_elements :: "nat \<Rightarrow> pyval list \<Rightarrow> pystr \<Rightarrow> (pyval \<times> pystr) option"
where
  "parse_value 0 s = None"
| "parse_value (Suc n) s =
     (case s of
        [] \<Rightarrow> None
      | c # cs \<Rightarrow>
          if c = 123 then
            (case skip_ws cs of
               [] \<Rightarrow> None
             | c' # r \<Rightarrow> if c' = 125 then Some (PDict [], r) else parse_members n [] (c' # r))
          else if c = 91 then
            (case skip_ws cs of
               [] \<Rightarrow> None
             | c' # r \<Rightarrow> if c' = 93 then Some (PList [], r) else parse_elements n [] (c' # r))
          else if c = 34 then map_option (\<lambda>(k, r). (PStr k, r)) (scan_string cs)
          else scan_atom s)"
| "parse_members 0 d s = None"
| "parse_members (Suc n) d s =
     (case s of
        [] \<Rightarrow> None
      | q # cs \<Rightarrow>
          if q \<noteq> 34 then None
          else
            (case scan_string cs of
               None \<Rightarrow> None
             | Some (k, r) \<Rightarrow>
                 (case skip_ws r of
                    [] \<Rightarrow> None
                  | colon # r1 \<Rightarrow>
                      if colon \<noteq> 58 then None
                      else
                        (case parse_value n (skip_ws r1) of
                           None \<Rightarrow> None
                         | Some (v, r2) \<Rightarrow>
                             (case skip_ws r2 of
                                [] \<Rightarrow> None
                              | sep # r3 \<Rightarrow>
                                  if sep = 44 then parse_members n (dict_set d k v) (skip_ws r3)
                                  else if sep = 125 then Some (PDict (dict_set d k v), r3)
                                  else None)))))"
| "parse_elements 0 xs s = None"
| "parse_elements (Suc n) xs s =
     (case parse_value n s of
        None \<Rightarrow> None
      | Some (v, r) \<Rightarrow>
          (case skip_ws r of
             [] \<Rightarrow> None
           | sep # r1 \<Rightarrow>
               if sep = 44 then parse_elements n (xs @ [v]) (skip_ws r1)
               else if sep = 93 then Some (PList (xs @ [v]), r1)
               else None))"

definition json_loads :: "pystr \<Rightarrow> pyval option" where
  "json_loads s =
     (case parse_value (Suc (length s)) (skip_ws s) of
        None \<Rightarrow> None
      | Some (v, r) \<Rightarrow> if skip_ws r = [] then Some v else None)"

section \<open>Transcripts, iteration records, external services\<close>

text \<open>
  A transcript turn is \<^verbatim>\<open>{"role": ..., "content": [{"text": ...}, {"image": ...}]}\<close>.
  An image part holds the data URL that the engine builds from the base64 text of the
  image.
\<close>

datatype role = User | Assistant

datatype content_part = TextPart pyval | ImagePart pyval

record message =
  role :: role
  content :: "content_part list"

definition data_url :: "pystr \<Rightarrow> pyval" where
  "data_url image_base64 = PFmt [PStr (str_of ''data:image/png;base64,''), PStr image_base64]"

definition user_turn :: "pyval \<Rightarrow> pystr \<Rightarrow> message" where
  "user_turn txt image_base64 = \<lparr>role = User, content = [TextPart txt, ImagePart (data_url image_base64)]\<rparr>"

definition assistant_turn :: "pystr \<Rightarrow> message" where
  "assistant_turn reply = \<lparr>role = Assistant, content = [TextPart (PStr reply)]\<rparr>"

text \<open>
  The Endpoint, \<^verbatim>\<open>VLMService.call(messages, system_prompt, expect_json=True)\<close>, catches
  its own errors and returns either the reply text with the parsed JSON or an error.
  The Renderer, \<^verbatim>\<open>VegaService.render(spec)\<close>, does the same: an image or an error.
\<close>

datatype vlm_response = VlmOk pystr pydict | VlmFail pyval

datatype render_result = RenderOk pystr | RenderFail pyval

record tool_execution =
  te_tool_name :: pyval
  te_tool_params :: pydict
  te_tool_result :: pydict

text \<open>
  An IterationRecord.  The record of a round whose Endpoint call failed has only the
  iteration number, \<^verbatim>\<open>success = False\<close>, the error and the time; the other keys are
  absent (\<open>None\<close>, and no images).
\<close>

record iteration_record =
  it_iteration :: nat
  it_success :: bool
  it_timestamp :: timestamp
  it_error :: "pyval option"
  it_decision :: "pydict option"
  it_vlm_raw_output :: "pystr option"
  it_images :: "pystr list"
  it_analysis_summary :: "pydict option"
  it_tool_execution :: "tool_execution option"

record goal_result =
  gr_success :: bool
  gr_mode :: pystr
  gr_iterations :: "iteration_record list"
  gr_final_spec :: pyval
  gr_final_image :: pystr

record chitchat_result =
  cr_success :: bool
  cr_response :: "pystr option"
  cr_raw_output :: "pystr option"
  cr_error :: "pyval option"

text \<open>What \<^verbatim>\<open>process_query\<close> returns: the \<^verbatim>\<open>Session not found\<close> error or the result of
  one of the three engines.  The result of the exploration engine, whose module is not
  among the sources, is a dict.\<close>

datatype query_result =
    SessionNotFound
  | ChitchatResult chitchat_result
  | GoalResult goal_result
  | ExploreResult pydict

record history_entry =
  he_query :: pystr
  he_intent :: pystr
  he_result :: query_result
  he_timestamp :: timestamp

text \<open>
  A session is the dict that \<^verbatim>\<open>create_session\<close> builds; the engines receive it as their
  \<^verbatim>\<open>context\<close> and keep their transcripts in it under keys of their own, which are absent
  (\<open>None\<close>) until an engine has run.  \<open>other_keys\<close> are the keys of the exploration
  engine.  \<^verbatim>\<open>ChartType\<close> is not among the sources: a chart type is an opaque value.
\<close>

record session =
  session_id :: pystr
  vega_spec :: pyval
  original_spec :: pyval
  current_image :: pystr
  chart_type :: pyval
  conversation_history :: "history_entry list"
  created_at :: timestamp
  last_activity :: timestamp
  chitchat_messages :: "message list option"
  goal_oriented_messages :: "message list option"
  goal_oriented_iterations :: "iteration_record list option"
  other_keys :: pydict

text \<open>
  The state outside the engines: the number of Endpoint calls and of Renderer calls made
  so far, and the one \<^verbatim>\<open>ToolExecutor\<close> of the process.
\<close>

record world =
  vlm_calls :: nat
  render_calls :: nat
  tool_executor :: executor

text \<open>
  The collaborators and the settings.  The Endpoint and the Renderer answer as functions
  of the number of calls made before, so that any sequence of answers can be given.
  The clock is read at most a few times in a round; \<open>clock i\<close> is what it shows during
  round \<open>i\<close>.  The prompt manager (\<^verbatim>\<open>prompts\<close>) and \<^verbatim>\<open>config.settings\<close> are not among the
  sources: the prompts and \<^verbatim>\<open>MAX_GOAL_ORIENTED_ITERATIONS\<close> are given here.
\<close>

record env =
  vlm :: "nat \<Rightarrow> message list \<Rightarrow> pyval \<Rightarrow> vlm_response"
  render :: "nat \<Rightarrow> pyval \<Rightarrow> render_result"
  clock :: "nat \<Rightarrow> timestamp"
  assemble_system_prompt :: "pyval \<Rightarrow> pyval"
  get_intent_recognition_prompt :: "pystr \<Rightarrow> pyval \<Rightarrow> pyval"
  chitchat_system_prompt :: pyval
  max_goal_oriented_iterations :: nat

section \<open>Goal-oriented engine: core/modes/goal\_oriented\_mode.py\<close>

text \<open>The literal segments of the f-strings of the engine, as code points: the first
  user turn ("analyse this view, the goal is: ..."), the report of a tool that succeeded
  and of its new view, the default message ("done"), the report of a failed render
  ("... current view (unchanged):"), the report of an analysis, and the report of a
  failed tool with the request to choose another tool or to set \<^verbatim>\<open>goal_achieved\<close>.\<close>

definition lit_initial :: pystr where
  "lit_initial =
     [35831, 20998, 26512, 36825, 20010, 35270, 22270, 65292, 29992, 25143, 30340, 20998,
     26512, 30446, 26631, 26159, 65306]"

definition lit_tool_ok_1 :: pystr where
  "lit_tool_ok_1 =
     [9989, 32, 24037, 20855, 32]"

definition lit_tool_ok_2 :: pystr where
  "lit_tool_ok_2 =
     [32, 25191, 34892, 25104, 21151, 12290, 10, 10, 32467, 26524, 65306]"

definition lit_tool_ok_3 :: pystr where
  "lit_tool_ok_3 =
     [10, 10, 36825, 26159, 26356, 26032, 21518, 30340, 35270, 22270, 65306]"

definition lit_default_message :: pystr where
  "lit_default_message =
     [25805, 20316, 23436, 25104]"

definition lit_render_failed_1 :: pystr where
  "lit_render_failed_1 =
     [10060, 32, 24037, 20855, 32]"

definition lit_render_failed_2 :: pystr where
  "lit_render_failed_2 =
     [32, 25191, 34892, 21518, 28210, 26579, 22833, 36133, 65306]"

definition lit_render_failed_3 :: pystr where
  "lit_render_failed_3 =
     [10, 10, 24403, 21069, 35270, 22270, 65288, 26410, 21464, 21270, 65289, 65306]"

definition lit_analysis_2 :: pystr where
  "lit_analysis_2 =
     [32, 25191, 34892, 25104, 21151, 12290, 10, 10, 20998, 26512, 32467, 26524, 65306]"

definition lit_analysis_3 :: pystr where
  "lit_analysis_3 =
     [10, 10, 35270, 22270, 26410, 21464, 21270, 65292, 24403, 21069, 35270, 22270, 65306]"

definition lit_tool_failed_2 :: pystr where
  "lit_tool_failed_2 =
     [32, 25191, 34892, 22833, 36133, 12290, 10, 10, 38169, 35823, 21407, 22240, 65306]"

definition lit_tool_failed_3 :: pystr where
  "lit_tool_failed_3 =
     [10, 10, 35831, 36873, 25321, 20854, 20182, 21487, 29992, 24037, 20855, 65292, 25110,
     22914, 26524, 30446, 26631, 24050, 36798, 25104, 65292, 35774, 32622, 32, 103, 111, 97,
     108, 95, 97, 99, 104, 105, 101, 118, 101, 100, 58, 32, 116, 114, 117, 101, 12290, 10,
     10, 24403, 21069, 35270, 22270, 65288, 26410, 21464, 21270, 65289, 65306]"

definition initial_text :: "pystr \<Rightarrow> pyval" where
  "initial_text user_query = PFmt [PStr lit_initial, PStr user_query]"

definition tool_success_text :: "pyval \<Rightarrow> pyval \<Rightarrow> pyval" where
  "tool_success_text tool_name success_msg =
     PFmt [PStr lit_tool_ok_1, tool_name, PStr lit_tool_ok_2, success_msg, PStr lit_tool_ok_3]"

definition render_failed_text :: "pyval \<Rightarrow> pyval \<Rightarrow> pyval" where
  "render_failed_text tool_name render_error =
     PFmt [PStr lit_render_failed_1, tool_name, PStr lit_render_failed_2, render_error,
           PStr lit_render_failed_3]"

definition analysis_text :: "pyval \<Rightarrow> pyval \<Rightarrow> pyval" where
  "analysis_text tool_name analysis_msg =
     PFmt [PStr lit_tool_ok_1, tool_name, PStr lit_analysis_2, analysis_msg, PStr lit_analysis_3]"

definition tool_failed_text :: "pyval \<Rightarrow> pyval \<Rightarrow> pyval" where
  "tool_failed_text tool_name error_msg =
     PFmt [PStr lit_render_failed_1, tool_name, PStr lit_tool_failed_2, error_msg,
           PStr lit_tool_failed_3]"

text \<open>The state of the loop: the local variables of \<^verbatim>\<open>execute\<close> that the rounds change,
  and the world.\<close>

record loop_state =
  ls_messages :: "message list"
  ls_iterations :: "iteration_record list"
  ls_current_spec :: pyval
  ls_current_image :: pystr
  ls_world :: world

datatype control = Continue | Break

text \<open>\<^verbatim>\<open>d.get(k)\<close> with the default \<^verbatim>\<open>None\<close>.\<close>

definition dict_get_none :: "pydict \<Rightarrow> pystr \<Rightarrow> pyval" where
  "dict_get_none d k = dict_get_default d k PNone"

text \<open>
  The logging line that reads the tool name,
  \<^verbatim>\<open>decision.get('tool_call', {}).get('tool', 'None') if decision.get('tool_call') else 'None'\<close>:
  a truthy \<^verbatim>\<open>tool_call\<close> that is not a dict has no \<^verbatim>\<open>get\<close>.
\<close>

definition log_tool_info :: "pydict \<Rightarrow> pyexn + unit" where
  "log_tool_info decision =
     (let tc = dict_get_none decision (str_of ''tool_call'') in
      if truthy tc then (case tc of PDict d \<Rightarrow> Inr () | _ \<Rightarrow> Inl (raise ''AttributeError''))
      else Inr ())"

definition failed_iteration :: "nat \<Rightarrow> pyval \<Rightarrow> timestamp \<Rightarrow> iteration_record" where
  "failed_iteration n err t =
     \<lparr>it_iteration = n, it_success = False, it_timestamp = t, it_error = Some err,
      it_decision = None, it_vlm_raw_output = None, it_images = [],
      it_analysis_summary = None, it_tool_execution = None\<rparr>"

definition new_iteration_record ::
  "nat \<Rightarrow> timestamp \<Rightarrow> pydict \<Rightarrow> pystr \<Rightarrow> pystr \<Rightarrow> iteration_record" where
  "new_iteration_record n t decision reply img =
     \<lparr>it_iteration = n, it_success = True, it_timestamp = t, it_error = None,
      it_decision = Some decision, it_vlm_raw_output = Some reply, it_images = [img],
      it_analysis_summary = Some
        [(str_of ''goal_understanding'', dict_get_none decision (str_of ''goal_understanding'')),
         (str_of ''current_gap'', dict_get_none decision (str_of ''current_gap'')),
         (str_of ''action_plan'', dict_get_none decision (str_of ''action_plan'')),
         (str_of ''reasoning'', dict_get_none decision (str_of ''reasoning''))],
      it_tool_execution = None\<rparr>"

text \<open>
  The three outcomes of a dispatched tool (lines 122 to 181), given the result dict.
  In the first, \<^verbatim>\<open>current_spec\<close> is assigned before the render call and stays assigned
  when the render fails.
\<close>

definition after_tool ::
  "env \<Rightarrow> pyval \<Rightarrow> pydict \<Rightarrow> loop_state \<Rightarrow> iteration_record \<Rightarrow> loop_state \<times> iteration_record" where
  "after_tool e tool_name tool_result s iteration_record =
     (if truthy (dict_get_none tool_result (str_of ''success'')) \<and> dict_has tool_result (str_of ''vega_spec'')
      then
        (let s1 = s\<lparr>ls_current_spec := dict_get_none tool_result (str_of ''vega_spec'')\<rparr>;
             w = ls_world s1;
             render_result = render e (render_calls w) (ls_current_spec s1);
             s2 = s1\<lparr>ls_world := w\<lparr>render_calls := Suc (render_calls w)\<rparr>\<rparr>
         in case render_result of
              RenderOk image_base64 \<Rightarrow>
                (let success_msg = dict_get_default tool_result (str_of ''message'') (PStr lit_default_message)
                 in (s2\<lparr>ls_current_image := image_base64,
                        ls_messages := ls_messages s2 @ [user_turn (tool_success_text tool_name success_msg) image_base64]\<rparr>,
                     iteration_record\<lparr>it_images := it_images iteration_record @ [image_base64]\<rparr>))
            | RenderFail render_error \<Rightarrow>
                (s2\<lparr>ls_messages := ls_messages s2 @
                       [user_turn (render_failed_text tool_name render_error) (ls_current_image s2)]\<rparr>,
                 iteration_record\<lparr>it_success := False\<rparr>))
      else if truthy (dict_get_none tool_result (str_of ''success''))
      then
        (let analysis_msg = dict_get_default tool_result (str_of ''message'') (PFmt [PDict tool_result])
         in (s\<lparr>ls_messages := ls_messages s @ [user_turn (analysis_text tool_name analysis_msg) (ls_current_image s)]\<rparr>,
             iteration_record))
      else
        (let error_msg = dict_get_default tool_result (str_of ''error'') (PStr (str_of ''Unknown error''))
         in (s\<lparr>ls_messages := ls_messages s @ [user_turn (tool_failed_text tool_name error_msg) (ls_current_image s)]\<rparr>,
             iteration_record\<lparr>it_success := False\<rparr>)))"

text \<open>
  Lines 107 to 120: \<^verbatim>\<open>tool_call["tool"]\<close> raises \<^verbatim>\<open>KeyError\<close> without the key;
  \<^verbatim>\<open>tool_params['vega_spec'] = current_spec\<close> raises \<^verbatim>\<open>TypeError\<close> when \<^verbatim>\<open>params\<close> is not a
  dict.  \<^verbatim>\<open>tool_params\<close> is the dict inside \<^verbatim>\<open>decision\<close> when the key \<^verbatim>\<open>params\<close> is there,
  so the recorded decision then shows the added \<^verbatim>\<open>vega_spec\<close>.  The dispatcher is the
  one of the world.
\<close>

definition run_tool ::
  "env \<Rightarrow> registry \<Rightarrow> nat \<Rightarrow> pydict \<Rightarrow> loop_state \<Rightarrow> iteration_record
     \<Rightarrow> pyexn + (loop_state \<times> iteration_record)" where
  "run_tool e reg n decision s iteration_record =
     (case dict_get_none decision (str_of ''tool_call'') of
        PDict tool_call \<Rightarrow>
          (case dict_get tool_call (str_of ''tool'') of
             None \<Rightarrow> Inl (raise ''KeyError'')
           | Some tool_name \<Rightarrow>
               (case dict_get_default tool_call (str_of ''params'') (PDict []) of
                  PDict ps \<Rightarrow>
                    (let tool_params = dict_set ps (str_of ''vega_spec'') (ls_current_spec s);
                         decision' =
                           (if dict_has tool_call (str_of ''params'')
                            then dict_set decision (str_of ''tool_call'')
                                   (PDict (dict_set tool_call (str_of ''params'') (PDict tool_params)))
                            else decision);
                         w = ls_world s
                     in case execute reg (clock e n) (tool_executor w) tool_name tool_params True of
                          Inl ex \<Rightarrow> Inl ex
                        | Inr (PDict tool_result, ex') \<Rightarrow>
                            Inr (after_tool e tool_name tool_result
                                   (s\<lparr>ls_world := w\<lparr>tool_executor := ex'\<rparr>\<rparr>)
                                   (iteration_record
                                      \<lparr>it_decision := Some decision',
                                       it_tool_execution := Some
                                         \<lparr>te_tool_name = tool_name,
                                          te_tool_params = dict_without tool_params (str_of ''vega_spec''),
                                          te_tool_result = tool_result\<rparr>\<rparr>))
                        | Inr (other, ex') \<Rightarrow> Inl (raise ''AttributeError''))
                | other \<Rightarrow> Inl (raise ''TypeError'')))
      | other \<Rightarrow> Inl (raise ''TypeError''))"

text \<open>One round of the \<^verbatim>\<open>for\<close> loop; \<open>iteration\<close> counts from 0 as in the source.\<close>

definition goal_iteration ::
  "env \<Rightarrow> registry \<Rightarrow> pyval \<Rightarrow> nat \<Rightarrow> loop_state \<Rightarrow> pyexn + (control \<times> loop_state)" where
  "goal_iteration e reg system_prompt iteration s =
     (let w = ls_world s;
          response = vlm e (vlm_calls w) (ls_messages s) system_prompt;
          w1 = w\<lparr>vlm_calls := Suc (vlm_calls w)\<rparr>
      in case response of
           VlmFail err \<Rightarrow>
             Inr (Break, s\<lparr>ls_iterations := ls_iterations s @
                             [failed_iteration (iteration + 1) err (clock e (iteration + 1))],
                           ls_world := w1\<rparr>)
         | VlmOk reply decision \<Rightarrow>
             (let s1 = s\<lparr>ls_messages := ls_messages s @ [assistant_turn reply], ls_world := w1\<rparr>
              in case log_tool_info decision of
                   Inl ex \<Rightarrow> Inl ex
                 | Inr u \<Rightarrow>
                     (let iteration_record =
                            new_iteration_record (iteration + 1) (clock e (iteration + 1)) decision reply
                              (ls_current_image s1)
                      in if truthy (dict_get_default decision (str_of ''goal_achieved'') (PBool False))
                         then Inr (Break, s1\<lparr>ls_iterations := ls_iterations s1 @ [iteration_record]\<rparr>)
                         else if truthy (dict_get_none decision (str_of ''tool_call''))
                         then
                           (case run_tool e reg (iteration + 1) decision s1 iteration_record of
                              Inl ex \<Rightarrow> Inl ex
                            | Inr (s2, iteration_record') \<Rightarrow>
                                Inr (Continue, s2\<lparr>ls_iterations := ls_iterations s2 @ [iteration_record']\<rparr>))
                         else Inr (Continue, s1\<lparr>ls_iterations := ls_iterations s1 @ [iteration_record]\<rparr>))))"

text \<open>\<^verbatim>\<open>for iteration in range(MAX_GOAL_ORIENTED_ITERATIONS)\<close>: \<open>n\<close> rounds are left and
  the next one has the number \<open>iteration\<close>.\<close>

fun goal_loop ::
  "env \<Rightarrow> registry \<Rightarrow> pyval \<Rightarrow> nat \<Rightarrow> nat \<Rightarrow> loop_state \<Rightarrow> pyexn + loop_state" where
  "goal_loop e reg system_prompt 0 iteration s = Inr s"
| "goal_loop e reg system_prompt (Suc n) iteration s =
     (case goal_iteration e reg system_prompt iteration s of
        Inl ex \<Rightarrow> Inl ex
      | Inr (Break, s') \<Rightarrow> Inr s'
      | Inr (Continue, s') \<Rightarrow> goal_loop e reg system_prompt n (Suc iteration) s')"

text \<open>
  \<^verbatim>\<open>GoalOrientedMode.execute(user_query, vega_spec, image_base64, chart_type, context)\<close>.
  The transcript and the records are the lists kept in the context, or new lists; a new
  transcript gets the first user turn.  The result is returned with the context and the
  world after the call.  An exception (\<open>Inl\<close>) ends the run: what it leaves behind in
  the context is not described.
\<close>

definition goal_execute ::
  "env \<Rightarrow> registry \<Rightarrow> pystr \<Rightarrow> pyval \<Rightarrow> pystr \<Rightarrow> pyval \<Rightarrow> session option \<Rightarrow> world
     \<Rightarrow> pyexn + (goal_result \<times> session option \<times> world)" where
  "goal_execute e reg user_query spec image_base64 ctype context w =
     (let system_prompt = assemble_system_prompt e ctype;
          messages0 = (case context of
                         None \<Rightarrow> []
                       | Some c \<Rightarrow> (case goal_oriented_messages c of None \<Rightarrow> [] | Some ms \<Rightarrow> ms));
          iterations0 = (case context of
                           None \<Rightarrow> []
                         | Some c \<Rightarrow> (case goal_oriented_iterations c of None \<Rightarrow> [] | Some its \<Rightarrow> its));
          messages1 = (if length messages0 = 0
                       then messages0 @ [user_turn (initial_text user_query) image_base64]
                       else messages0);
          s0 = \<lparr>ls_messages = messages1, ls_iterations = iterations0, ls_current_spec = spec,
                ls_current_image = image_base64, ls_world = w\<rparr>
      in case goal_loop e reg system_prompt (max_goal_oriented_iterations e) 0 s0 of
           Inl ex \<Rightarrow> Inl ex
         | Inr s \<Rightarrow>
             Inr (\<lparr>gr_success = True, gr_mode = str_of ''goal_oriented'',
                   gr_iterations = ls_iterations s, gr_final_spec = ls_current_spec s,
                   gr_final_image = ls_current_image s\<rparr>,
                  map_option (\<lambda>c. c\<lparr>goal_oriented_messages := Some (ls_messages s),
                                     goal_oriented_iterations := Some (ls_iterations s)\<rparr>) context,
                  ls_world s))"

subsection \<open>Notions used in the properties of the engine\<close>






text \<open>No two consecutive turns have the same role.\<close>

fun alternating :: "message list \<Rightarrow> bool" where
  "alternating [] = True"
| "alternating [m] = True"
| "alternating (m # m' # ms) = (role m \<noteq> role m' \<and> alternating (m' # ms))"

section \<open>Session manager: core/session\_manager.py\<close>








fun starts_with :: "pystr \<Rightarrow> pystr \<Rightarrow> bool" where
  "starts_with [] s = True"
| "starts_with (p # ps) [] = False"
| "starts_with (p # ps) (c # cs) = (p = c \<and> starts_with ps cs)"

fun contains :: "pystr \<Rightarrow> pystr \<Rightarrow> bool" where
  "contains sub [] = (sub = [])"
| "contains sub (c # cs) = (starts_with sub (c # cs) \<or> contains sub cs)"










subsection \<open>Direct engine: core/modes/chitchat\_mode.py\<close>


subsection \<open>Routing\<close>




section \<open>Tool bodies on shared objects: tools/line\_chart\_tools.py\<close>

text \<open>
  Whether a tool body hands back objects of its caller depends on object identity, so
  here dicts and lists live in a store: an address is an index into the list of
  objects, a new object goes to the end, and a value is an immediate value or a
  reference.
\<close>

datatype hval = HNone | HBool bool | HInt int | HFloat rat | HStr pystr | HRef nat

datatype hobj = HDict "(pystr \<times> hval) list" | HList "hval list"

type_synonym heap = "hobj list"

text \<open>A computation on the store either raises or returns a value and the new store.\<close>

type_synonym 'a hm = "heap \<Rightarrow> pyexn + ('a \<times> heap)"

definition hreturn :: "'a \<Rightarrow> 'a hm" where
  "hreturn x h = Inr (x, h)"

definition hraise :: "string \<Rightarrow> 'a hm" where
  "hraise cls h = Inl (raise cls)"

definition hbind :: "'a hm \<Rightarrow> ('a \<Rightarrow> 'b hm) \<Rightarrow> 'b hm" where
  "hbind m f h = (case m h of Inl ex \<Rightarrow> Inl ex | Inr (x, h') \<Rightarrow> f x h')"

definition new_obj :: "hobj \<Rightarrow> hval hm" where
  "new_obj obj h = Inr (HRef (length h), h @ [obj])"

definition obj_at :: "heap \<Rightarrow> hval \<Rightarrow> hobj option" where
  "obj_at h v = (case v of HRef a \<Rightarrow> if a < length h then Some (h ! a) else None | _ \<Rightarrow> None)"

text \<open>
  \<^verbatim>\<open>copy.deepcopy\<close>: an immediate value is itself; a dict or a list is copied into a new
  object after its members.  The first argument is the depth that the recursion limit
  of the interpreter allows; below it \<^verbatim>\<open>deepcopy\<close> raises \<^verbatim>\<open>RecursionError\<close>.  (Objects
  reached twice are copied twice: the specifications are trees.)
\<close>

fun copy_all :: "(hval \<Rightarrow> hval hm) \<Rightarrow> hval list \<Rightarrow> (hval list) hm" where
  "copy_all f [] h = Inr ([], h)"
| "copy_all f (v # vs) h =
     (case f v h of
        Inl ex \<Rightarrow> Inl ex
      | Inr (v', h') \<Rightarrow>
          (case copy_all f vs h' of
             Inl ex \<Rightarrow> Inl ex
           | Inr (vs', h'') \<Rightarrow> Inr (v' # vs', h'')))"

primrec deepcopy :: "nat \<Rightarrow> hval \<Rightarrow> hval hm" where
  "deepcopy 0 = (\<lambda>v h. Inl (raise ''RecursionError''))"
| "deepcopy (Suc n) =
     (\<lambda>v h. case obj_at h v of
        None \<Rightarrow> Inr (v, h)
      | Some (HDict d) \<Rightarrow>
          (case copy_all (deepcopy n) (map snd d) h of
             Inl ex \<Rightarrow> Inl ex
           | Inr (vs, h') \<Rightarrow> new_obj (HDict (zip (map fst d) vs)) h')
      | Some (HList xs) \<Rightarrow>
          (case copy_all (deepcopy n) xs h of
             Inl ex \<Rightarrow> Inl ex
           | Inr (vs, h') \<Rightarrow> new_obj (HList vs) h'))"

text \<open>
  The operations of the tool bodies: \<^verbatim>\<open>k in x\<close>, \<^verbatim>\<open>x[k]\<close>, \<^verbatim>\<open>x[0]\<close>,
  \<^verbatim>\<open>x.get(k, default)\<close>, \<^verbatim>\<open>len(x)\<close>, \<^verbatim>\<open>x[k] = v\<close>, \<^verbatim>\<open>del x[k]\<close>, \<^verbatim>\<open>x.append(v)\<close> and
  the truth value of \<^verbatim>\<open>x\<close>, with the exception that Python raises when \<^verbatim>\<open>x\<close> is of the
  wrong kind.
\<close>

definition h_contains :: "pystr \<Rightarrow> hval \<Rightarrow> bool hm" where
  "h_contains k x h =
     (case x of
        HRef a \<Rightarrow>
          (case obj_at h x of
             Some (HDict d) \<Rightarrow> Inr (k \<in> set (map fst d), h)
           | Some (HList xs) \<Rightarrow> Inr (HStr k \<in> set xs, h)
           | None \<Rightarrow> Inl (raise ''TypeError''))
      | HStr s \<Rightarrow> Inr (contains k s, h)
      | _ \<Rightarrow> Inl (raise ''TypeError''))"

definition h_getitem :: "hval \<Rightarrow> pystr \<Rightarrow> hval hm" where
  "h_getitem x k h =
     (case obj_at h x of
        Some (HDict d) \<Rightarrow> (case map_of d k of Some v \<Rightarrow> Inr (v, h) | None \<Rightarrow> Inl (raise ''KeyError''))
      | _ \<Rightarrow> Inl (raise ''TypeError''))"

definition h_first :: "hval \<Rightarrow> hval hm" where
  "h_first x h =
     (case x of
        HStr s \<Rightarrow> (case s of [] \<Rightarrow> Inl (raise ''IndexError'') | c # cs \<Rightarrow> Inr (HStr [c], h))
      | _ \<Rightarrow>
          (case obj_at h x of
             Some (HList xs) \<Rightarrow> (case xs of [] \<Rightarrow> Inl (raise ''IndexError'') | v # vs \<Rightarrow> Inr (v, h))
           | Some (HDict d) \<Rightarrow> Inl (raise ''KeyError'')
           | None \<Rightarrow> Inl (raise ''TypeError'')))"

definition h_get :: "hval \<Rightarrow> pystr \<Rightarrow> hval \<Rightarrow> hval hm" where
  "h_get x k default_value h =
     (case obj_at h x of
        Some (HDict d) \<Rightarrow> Inr ((case map_of d k of Some v \<Rightarrow> v | None \<Rightarrow> default_value), h)
      | _ \<Rightarrow> Inl (raise ''AttributeError''))"

definition h_len :: "hval \<Rightarrow> nat hm" where
  "h_len x h =
     (case x of
        HStr s \<Rightarrow> Inr (length s, h)
      | _ \<Rightarrow>
          (case obj_at h x of
             Some (HDict d) \<Rightarrow> Inr (length d, h)
           | Some (HList xs) \<Rightarrow> Inr (length xs, h)
           | None \<Rightarrow> Inl (raise ''TypeError'')))"

fun items_set :: "(pystr \<times> hval) list \<Rightarrow> pystr \<Rightarrow> hval \<Rightarrow> (pystr \<times> hval) list" where
  "items_set [] k v = [(k, v)]"
| "items_set ((k', v') # d) k v = (if k' = k then (k, v) # d else (k', v') # items_set d k v)"

definition h_setitem :: "hval \<Rightarrow> pystr \<Rightarrow> hval \<Rightarrow> unit hm" where
  "h_setitem x k v h =
     (case x of
        HRef a \<Rightarrow>
          (case obj_at h x of
             Some (HDict d) \<Rightarrow> Inr ((), h[a := HDict (items_set d k v)])
           | _ \<Rightarrow> Inl (raise ''TypeError''))
      | _ \<Rightarrow> Inl (raise ''TypeError''))"

definition h_delitem :: "hval \<Rightarrow> pystr \<Rightarrow> unit hm" where
  "h_delitem x k h =
     (case x of
        HRef a \<Rightarrow>
          (case obj_at h x of
             Some (HDict d) \<Rightarrow>
               if k \<in> set (map fst d) then Inr ((), h[a := HDict (filter (\<lambda>(k', v). k' \<noteq> k) d)])
               else Inl (raise ''KeyError'')
           | _ \<Rightarrow> Inl (raise ''TypeError''))
      | _ \<Rightarrow> Inl (raise ''TypeError''))"

definition h_append :: "hval \<Rightarrow> hval \<Rightarrow> unit hm" where
  "h_append x v h =
     (case x of
        HRef a \<Rightarrow>
          (case obj_at h x of
             Some (HList xs) \<Rightarrow> Inr ((), h[a := HList (xs @ [v])])
           | _ \<Rightarrow> Inl (raise ''AttributeError''))
      | _ \<Rightarrow> Inl (raise ''AttributeError''))"

definition h_truthy :: "heap \<Rightarrow> hval \<Rightarrow> bool" where
  "h_truthy h x =
     (case x of
        HNone \<Rightarrow> False
      | HBool b \<Rightarrow> b
      | HInt i \<Rightarrow> i \<noteq> 0
      | HFloat r \<Rightarrow> r \<noteq> 0
      | HStr s \<Rightarrow> s \<noteq> []
      | HRef a \<Rightarrow> (case obj_at h x of Some (HDict d) \<Rightarrow> d \<noteq> [] | Some (HList xs) \<Rightarrow> xs \<noteq> [] | None \<Rightarrow> True))"

text \<open>The encoding that \<^verbatim>\<open>highlight_trend\<close> reads: that of the first layer when there are
  layers, that of the specification otherwise.\<close>

definition first_encoding :: "hval \<Rightarrow> hval hm" where
  "first_encoding new_spec =
     hbind (h_contains (str_of ''layer'') new_spec) (\<lambda>has_layer.
     hbind (if has_layer
            then hbind (h_getitem new_spec (str_of ''layer'')) (\<lambda>layers.
                 hbind (h_len layers) (\<lambda>n. hreturn (n > 0)))
            else hreturn False) (\<lambda>layered.
     hbind (new_obj (HDict [])) (\<lambda>empty.
     if layered
     then hbind (h_getitem new_spec (str_of ''layer'')) (\<lambda>layers.
          hbind (h_first layers) (\<lambda>layer0.
          h_get layer0 (str_of ''encoding'') empty))
     else h_get new_spec (str_of ''encoding'') empty)))"

definition field_of :: "hval \<Rightarrow> pystr \<Rightarrow> hval hm" where
  "field_of encoding channel =
     hbind (new_obj (HDict [])) (\<lambda>empty.
     hbind (h_get encoding channel empty) (\<lambda>ch.
     h_get ch (str_of ''field'') HNone))"

text \<open>
  \<^verbatim>\<open>if 'layer' not in new_spec\<close>: the specification is copied once more, \<^verbatim>\<open>mark\<close> and
  \<^verbatim>\<open>encoding\<close> are deleted from the copy, and the copy gets one layer whose \<^verbatim>\<open>mark\<close> and
  \<^verbatim>\<open>encoding\<close> are read from \<^verbatim>\<open>vega_spec\<close>, the argument of the caller.
\<close>

definition delete_if_present :: "hval \<Rightarrow> pystr \<Rightarrow> unit hm" where
  "delete_if_present x k =
     hbind (h_contains k x) (\<lambda>present. if present then h_delitem x k else hreturn ())"

definition to_layers :: "nat \<Rightarrow> hval \<Rightarrow> hval \<Rightarrow> hval hm" where
  "to_layers depth input_spec new_spec =
     hbind (h_contains (str_of ''layer'') new_spec) (\<lambda>has_layer.
     if has_layer then hreturn new_spec
     else
       hbind (deepcopy depth new_spec) (\<lambda>original_layer.
       hbind (delete_if_present original_layer (str_of ''mark'')) (\<lambda>u1.
       hbind (delete_if_present original_layer (str_of ''encoding'')) (\<lambda>u2.
       hbind (h_get input_spec (str_of ''mark'') (HStr (str_of ''line''))) (\<lambda>mark_value.
       hbind (new_obj (HDict [])) (\<lambda>empty.
       hbind (h_get input_spec (str_of ''encoding'') empty) (\<lambda>encoding_value.
       hbind (new_obj (HDict [(str_of ''mark'', mark_value), (str_of ''encoding'', encoding_value)])) (\<lambda>layer.
       hbind (new_obj (HList [layer])) (\<lambda>layers.
       hbind (h_setitem original_layer (str_of ''layer'') layers) (\<lambda>u3.
       hreturn original_layer))))))))))"

text \<open>The layer of the trend line, built inside out as the dict display is evaluated.\<close>

definition channel_type :: "hval \<Rightarrow> pystr \<Rightarrow> string \<Rightarrow> hval hm" where
  "channel_type encoding channel fallback =
     hbind (h_getitem encoding channel) (\<lambda>ch. h_get ch (str_of ''type'') (HStr (str_of fallback)))"

definition trend_layer :: "hval \<Rightarrow> hval \<Rightarrow> hval \<Rightarrow> hval hm" where
  "trend_layer encoding x_field y_field =
     hbind (new_obj (HList [HInt 5, HInt 5])) (\<lambda>dash.
     hbind (new_obj (HDict [(str_of ''type'', HStr (str_of ''line'')),
                            (str_of ''color'', HStr (str_of ''red'')),
                            (str_of ''strokeDash'', dash),
                            (str_of ''strokeWidth'', HInt 2)])) (\<lambda>mark_value.
     hbind (new_obj (HDict [(str_of ''regression'', y_field), (str_of ''on'', x_field)])) (\<lambda>regression.
     hbind (new_obj (HList [regression])) (\<lambda>transform.
     hbind (channel_type encoding (str_of ''x'') ''temporal'') (\<lambda>x_type.
     hbind (new_obj (HDict [(str_of ''field'', x_field), (str_of ''type'', x_type)])) (\<lambda>x_enc.
     hbind (channel_type encoding (str_of ''y'') ''quantitative'') (\<lambda>y_type.
     hbind (new_obj (HDict [(str_of ''field'', y_field), (str_of ''type'', y_type)])) (\<lambda>y_enc.
     hbind (new_obj (HDict [(str_of ''x'', x_enc), (str_of ''y'', y_enc)])) (\<lambda>enc.
     new_obj (HDict [(str_of ''mark'', mark_value), (str_of ''transform'', transform),
                     (str_of ''encoding'', enc)]))))))))))"

text \<open>
  \<^verbatim>\<open>highlight_trend(vega_spec, trend_type)\<close>.  The returned dict is given by its items;
  the message and the details are f-strings over \<^verbatim>\<open>trend_type\<close> and are left out.
\<close>

definition highlight_trend :: "nat \<Rightarrow> hval \<Rightarrow> hval \<Rightarrow> ((pystr \<times> hval) list) hm" where
  "highlight_trend depth input_spec trend_type =
     hbind (deepcopy depth input_spec) (\<lambda>new_spec.
     hbind (first_encoding new_spec) (\<lambda>encoding.
     hbind (field_of encoding (str_of ''y'')) (\<lambda>y_field.
     hbind (field_of encoding (str_of ''x'')) (\<lambda>x_field.
     (\<lambda>h. if \<not> h_truthy h y_field \<or> \<not> h_truthy h x_field
          then Inr ([(str_of ''success'', HBool False),
                     (str_of ''error'', HStr (str_of ''Cannot find x or y field for trend line''))], h)
          else
            hbind (to_layers depth input_spec new_spec) (\<lambda>layered_spec.
            hbind (trend_layer encoding x_field y_field) (\<lambda>layer.
            hbind (h_getitem layered_spec (str_of ''layer'')) (\<lambda>layers.
            hbind (h_append layers layer) (\<lambda>u.
            hreturn [(str_of ''success'', HBool True),
                     (str_of ''operation'', HStr (str_of ''highlight_trend'')),
                     (str_of ''vega_spec'', layered_spec)])))) h)))))"

text \<open>Following keys and positions from a value.\<close>

datatype step = Key pystr | Pos nat

fun follow :: "heap \<Rightarrow> hval \<Rightarrow> step list \<Rightarrow> hval option" where
  "follow h v [] = Some v"
| "follow h v (Key k # path) =
     (case obj_at h v of
        Some (HDict d) \<Rightarrow> (case map_of d k of Some v' \<Rightarrow> follow h v' path | None \<Rightarrow> None)
      | _ \<Rightarrow> None)"
| "follow h v (Pos i # path) =
     (case obj_at h v of
        Some (HList xs) \<Rightarrow> (if i < length xs then follow h (xs ! i) path else None)
      | _ \<Rightarrow> None)"

text \<open>A line chart in the store, at address 0, with its encoding at address 1.\<close>

definition line_chart_heap :: heap where
  "line_chart_heap =
     [HDict [(str_of ''mark'', HStr (str_of ''line'')), (str_of ''encoding'', HRef 1)],
      HDict [(str_of ''x'', HRef 2), (str_of ''y'', HRef 3)],
      HDict [(str_of ''field'', HStr (str_of ''t''))],
      HDict [(str_of ''field'', HStr (str_of ''v''))]]"

text \<open>What is observed of a call of \<^verbatim>\<open>highlight_trend\<close>: the store after it, and the
  returned specification.\<close>

definition returned_spec :: "pyexn + ((pystr \<times> hval) list \<times> heap) \<Rightarrow> (hval \<times> heap) option" where
  "returned_spec r =
     (case r of
        Inl ex \<Rightarrow> None
      | Inr (result, h) \<Rightarrow>
          (case map_of result (str_of ''vega_spec'') of None \<Rightarrow> None | Some v \<Rightarrow> Some (v, h)))"

text \<open>A caller that changes an object it reaches from a value: \<^verbatim>\<open>target[k] = x\<close> where
  \<^verbatim>\<open>target\<close> is found along the path.\<close>

definition write_through :: "heap \<Rightarrow> hval \<Rightarrow> step list \<Rightarrow> pystr \<Rightarrow> hval \<Rightarrow> heap option" where
  "write_through h v path k x =
     (case follow h v path of
        None \<Rightarrow> None
      | Some target \<Rightarrow> (case h_setitem target k x h of Inl ex \<Rightarrow> None | Inr (u, h') \<Rightarrow> Some h'))"


section \<open>Example runs\<close>

text \<open>
  A bar chart specification, three decisions of the Endpoint (call \<^verbatim>\<open>compare_groups\<close> with
  \<^verbatim>\<open>group_field = "g"\<close>; goal achieved; neither a tool call nor achievement) and the
  collaborators of four runs.  The catalog is \<open>tool_registry modelled_impl\<close>.
\<close>

definition example_spec :: pyval where
  "example_spec =
     PDict [(str_of ''mark'', PStr (str_of ''bar'')),
            (str_of ''encoding'',
               PDict [(str_of ''x'', PDict [(str_of ''field'', PStr (str_of ''a''))]),
                      (str_of ''y'', PDict [(str_of ''field'', PStr (str_of ''b''))])])]"

definition decision_compare :: pydict where
  "decision_compare =
     [(str_of ''tool_call'',
         PDict [(str_of ''tool'', PStr (str_of ''compare_groups'')),
                (str_of ''params'', PDict [(str_of ''group_field'', PStr (str_of ''g''))])]),
      (str_of ''goal_achieved'', PBool False)]"

definition decision_done :: pydict where
  "decision_done = [(str_of ''goal_achieved'', PBool True)]"

definition decision_idle :: pydict where
  "decision_idle = [(str_of ''reasoning'', PStr (str_of ''thinking''))]"

definition example_world :: world where
  "example_world = \<lparr>vlm_calls = 0, render_calls = 0, tool_executor = new_executor\<rparr>"

text \<open>The first call asks for the tool, every later call reports achievement; the render
  succeeds; at most three rounds.\<close>

definition env_tool_then_done :: env where
  "env_tool_then_done =
     \<lparr>vlm = (\<lambda>idx ms sp. if idx = 0 then VlmOk (str_of ''use the tool'') decision_compare
                          else VlmOk (str_of ''done'') decision_done),
      render = (\<lambda>idx spec. RenderOk (str_of ''aW1hZ2Ux'')),
      clock = (\<lambda>i. i),
      assemble_system_prompt = (\<lambda>ctype. PStr (str_of ''system'')),
      get_intent_recognition_prompt = (\<lambda>q ctype. PStr (str_of ''intent?'')),
      chitchat_system_prompt = PStr (str_of ''chat''),
      max_goal_oriented_iterations = 3\<rparr>"

text \<open>The Endpoint never asks for a tool and never reports achievement; at most three
  rounds, respectively two.\<close>

definition env_idle :: env where
  "env_idle = env_tool_then_done\<lparr>vlm := (\<lambda>idx ms sp. VlmOk (str_of ''hm'') decision_idle)\<rparr>"

definition env_idle_two :: env where
  "env_idle_two = env_idle\<lparr>max_goal_oriented_iterations := 2\<rparr>"

text \<open>The Endpoint asks for the tool once; the render of the new specification fails; one
  round.\<close>

definition env_render_fails :: env where
  "env_render_fails =
     env_tool_then_done\<lparr>render := (\<lambda>idx spec. RenderFail (PStr (str_of ''vega-cli execution failed''))),
                         max_goal_oriented_iterations := 1\<rparr>"

text \<open>A session as \<^verbatim>\<open>create_session\<close> leaves it, and the specification that
  \<^verbatim>\<open>compare_groups\<close> makes of the example.\<close>

definition example_session :: session where
  "example_session =
     \<lparr>session_id = str_of ''s1'', vega_spec = example_spec, original_spec = example_spec,
      current_image = str_of ''aW1hZ2Uw'', chart_type = PStr (str_of ''bar_chart''),
      conversation_history = [], created_at = 0, last_activity = 0,
      chitchat_messages = None, goal_oriented_messages = None, goal_oriented_iterations = None,
      other_keys = []\<rparr>"

definition example_spec_grouped :: pyval where
  "example_spec_grouped =
     PDict [(str_of ''mark'', PStr (str_of ''bar'')),
            (str_of ''encoding'',
               PDict [(str_of ''x'', PDict [(str_of ''field'', PStr (str_of ''a''))]),
                      (str_of ''y'', PDict [(str_of ''field'', PStr (str_of ''b''))]),
                      (str_of ''color'', PDict [(str_of ''field'', PStr (str_of ''g'')),
                                               (str_of ''type'', PStr (str_of ''nominal''))])])]"

text \<open>What the properties observe of a run: the final specification and image, the
  success flags of the records, and the roles and the last turn of the transcript kept
  in the context.\<close>

definition final_state_of ::
  "pyexn + (goal_result \<times> session option \<times> world) \<Rightarrow> (pyval \<times> pystr \<times> bool list) option" where
  "final_state_of r =
     (case r of
        Inl ex \<Rightarrow> None
      | Inr (res, context', w') \<Rightarrow>
          Some (gr_final_spec res, gr_final_image res, map it_success (gr_iterations res)))"

definition transcript_of ::
  "pyexn + (goal_result \<times> session option \<times> world) \<Rightarrow> message list option" where
  "transcript_of r =
     (case r of
        Inl ex \<Rightarrow> None
      | Inr (res, context', w') \<Rightarrow>
          (case context' of None \<Rightarrow> None | Some c \<Rightarrow> goal_oriented_messages c))"

text \<open>What \<^verbatim>\<open>compare_groups\<close> returns for the example.\<close>

definition compare_result :: pydict where
  "compare_result =
     [(str_of ''success'', PBool True),
      (str_of ''operation'', PStr (str_of ''compare_groups'')),
      (str_of ''vega_spec'', example_spec_grouped),
      (str_of ''message'', PFmt [PStr (str_of ''Grouped by ''), PStr (str_of ''g'')])]"




section \<open>Properties of the tool dispatcher\<close>

lemma get_tool_PStr: "get_tool reg (PStr n) = Inr (map_of reg n)"
  by (simp add: get_tool_def)

lemma record_execution_dict:
  "record_execution st now tn ps (PDict r) ok =
     Inr (st\<lparr>execution_history := limit_history (execution_history st @
        [\<lparr>er_timestamp = now, er_tool_name = tn, er_params = dict_without ps (str_of ''vega_spec''),
          er_result = dict_without r (str_of ''vega_spec''), er_success = ok\<rparr>])\<rparr>)"
  by (simp add: record_execution_def)

lemma error_result_is_dict:
  "error_result (PyExn cls msg tb) =
     PDict [(str_of ''success'', PBool False), (str_of ''error'', msg), (str_of ''traceback'', tb)]"
  by (simp add: error_result_def)


lemma validate_params_found:
  "map_of reg n = Some info \<Longrightarrow>
   validate_params reg (PStr n) ps =
     Inr \<lparr>valid = (missing_required info ps = []), errors = map missing_message (missing_required info ps)\<rparr>"
  by (simp add: validate_params_def get_tool_PStr)

lemma execute_unknown:
  "map_of reg n = None \<Longrightarrow>
   execute reg now st (PStr n) ps validate = Inr (not_found_result reg (PStr n), st)"
  by (simp add: execute_def get_tool_PStr)

lemma execute_invalid:
  "map_of reg n = Some info \<Longrightarrow> missing_required info ps \<noteq> [] \<Longrightarrow>
   execute reg now st (PStr n) ps True =
     Inr (PDict [(str_of ''success'', PBool False),
                 (str_of ''error'', PStr (str_of ''Parameter validation failed'')),
                 (str_of ''details'', PList (map missing_message (missing_required info ps)))], st)"
  by (simp add: execute_def get_tool_PStr validate_params_found validation_failed_result_def)

lemma execute_invoked:
  assumes "map_of reg n = Some info" and "validate \<longrightarrow> missing_required info ps = []"
  shows "execute reg now st (PStr n) ps validate =
     (case tool_fn info (fill_default_params info ps) of
        Inr (PDict r) \<Rightarrow> Inr (PDict r, logged st now (PStr n) (fill_default_params info ps) r True)
      | Inr v \<Rightarrow> Inr (error_result (raise ''AttributeError''),
                   logged st now (PStr n) (fill_default_params info ps)
                     [(str_of ''success'', PBool False), (str_of ''error'', PNone), (str_of ''traceback'', PNone)] False)
      | Inl (PyExn cls msg tb) \<Rightarrow> Inr (error_result (PyExn cls msg tb),
                   logged st now (PStr n) (fill_default_params info ps)
                     [(str_of ''success'', PBool False), (str_of ''error'', msg), (str_of ''traceback'', tb)] False))"
  using assms
  by (auto simp add: execute_def get_tool_PStr validate_params_found Let_def try_tool_def
        record_execution_def error_result_def raise_def logged_def
      split: sum.splits pyval.splits pyexn.splits)




lemmas registry_defs = tool_registry_def common_tools_def bar_chart_tools_dict_def
    line_chart_tools_dict_def scatter_tools_def heatmap_tools_dict_def
    parallel_coords_tools_dict_def sankey_tools_dict_def

lemma lookup_compare_groups:
  "map_of (tool_registry impl) (str_of ''compare_groups'') =
     Some \<lparr>tool_fn = impl (str_of ''bar_chart_tools.compare_groups''), category = str_of ''analysis'',
           description = [32452, 38388, 23545, 27604],
           params = [(str_of ''vega_spec'', \<lparr>ptype = str_of ''dict'', required = True, dflt = None\<rparr>),
                     (str_of ''group_field'', \<lparr>ptype = str_of ''str'', required = True, dflt = None\<rparr>)]\<rparr>"
  by (simp add: registry_defs str_of_def)

lemma lookup_unknown:
  "map_of (tool_registry impl) (str_of ''no_such_tool'') = None"
  by (simp add: registry_defs str_of_def)



text \<open>
  C5.  With validation on, a call of a registered tool that lacks one or more required
  parameters returns \<^verbatim>\<open>success = False\<close>, \<^verbatim>\<open>'Parameter validation failed'\<close> and, under
  \<^verbatim>\<open>'details'\<close>, one message for each required parameter that is missing, all of them
  and in the order of the descriptor; the executor is returned as it was, so the body
  has not been called and nothing has been logged.
\<close>

theorem missing_required_parameters_rejected:
  assumes "map_of reg name = Some info"
    and "(p0, spec0) \<in> set (params info)" and "required spec0" and "\<not> dict_has ps p0"
  shows "\<exists>details.
           execute reg now st (PStr name) ps True =
             Inr (PDict [(str_of ''success'', PBool False),
                         (str_of ''error'', PStr (str_of ''Parameter validation failed'')),
                         (str_of ''details'', PList (map missing_message details))], st)
         \<and> set details = {p. \<exists>spec. (p, spec) \<in> set (params info) \<and> required spec \<and> \<not> dict_has ps p}
         \<and> p0 \<in> set details"
proof -
  have chr: "set (missing_required info ps)
      = {p. \<exists>spec. (p, spec) \<in> set (params info) \<and> required spec \<and> \<not> dict_has ps p}"
    by (force simp add: missing_required_def)
  have mem: "p0 \<in> set (missing_required info ps)"
    unfolding chr using assms(2-4) by blast
  then have "missing_required info ps \<noteq> []" by auto
  from execute_invalid [OF assms(1) this] chr mem show ?thesis by blast
qed

theorem missing_required_parameters_rejected_witness:
  "map_of (tool_registry modelled_impl) (str_of ''compare_groups'') =
     Some \<lparr>tool_fn = modelled_impl (str_of ''bar_chart_tools.compare_groups''), category = str_of ''analysis'',
           description = [32452, 38388, 23545, 27604],
           params = [(str_of ''vega_spec'', \<lparr>ptype = str_of ''dict'', required = True, dflt = None\<rparr>),
                     (str_of ''group_field'', \<lparr>ptype = str_of ''str'', required = True, dflt = None\<rparr>)]\<rparr>
   \<and> \<not> dict_has [(str_of ''vega_spec'', PDict [])] (str_of ''group_field'')
   \<and> (\<exists>details.
         execute (tool_registry modelled_impl) 0 new_executor (PStr (str_of ''compare_groups''))
             [(str_of ''vega_spec'', PDict [])] True =
           Inr (PDict [(str_of ''success'', PBool False),
                       (str_of ''error'', PStr (str_of ''Parameter validation failed'')),
                       (str_of ''details'', PList (map missing_message details))], new_executor)
         \<and> str_of ''group_field'' \<in> set details)"
proof -
  let ?info = "\<lparr>tool_fn = modelled_impl (str_of ''bar_chart_tools.compare_groups''), category = str_of ''analysis'',
           description = [32452, 38388, 23545, 27604],
           params = [(str_of ''vega_spec'', \<lparr>ptype = str_of ''dict'', required = True, dflt = None\<rparr>),
                     (str_of ''group_field'', \<lparr>ptype = str_of ''str'', required = True, dflt = None\<rparr>)]\<rparr>"
  let ?ps = "[(str_of ''vega_spec'', PDict [])]"
  have l: "map_of (tool_registry modelled_impl) (str_of ''compare_groups'') = Some ?info"
    by (rule lookup_compare_groups)
  have m: "(str_of ''group_field'', \<lparr>ptype = str_of ''str'', required = True, dflt = None\<rparr>) \<in> set (params ?info)"
    by simp
  have r: "required \<lparr>ptype = str_of ''str'', required = True, dflt = None\<rparr>" by simp
  have a: "\<not> dict_has ?ps (str_of ''group_field'')" by (simp add: dict_has_def str_of_def)
  from missing_required_parameters_rejected [OF l m r a, of 0 new_executor] l a
  show ?thesis by blast
qed

lemma execute_invoked_logged:
  assumes "map_of reg n = Some info" and "validate \<longrightarrow> missing_required info ps = []"
  shows "\<exists>r. execute reg now st (PStr n) ps validate =
           Inr (PDict r, logged st now (PStr n) (fill_default_params info ps) r
                  (tool_fn info (fill_default_params info ps) = Inr (PDict r)))"
proof (cases "tool_fn info (fill_default_params info ps)")
  case (Inl e)
  obtain cls msg tb where e: "e = PyExn cls msg tb" by (cases e)
  show ?thesis
    by (simp add: execute_invoked [OF assms] Inl e error_result_def)
next
  case (Inr v)
  show ?thesis
    by (cases v) (simp_all add: execute_invoked [OF assms] Inr error_result_def raise_def)
qed

lemma dict_without_has: "\<not> dict_has (dict_without d k) k"
  by (auto simp add: dict_has_def dict_without_def)

lemma limit_history_length: "length h \<le> 101 \<Longrightarrow> length (limit_history h) \<le> 100"
  by (simp add: limit_history_def)

lemma logged_record:
  "\<exists>rec. execution_history (logged st now tn filled r ok) = limit_history (execution_history st @ [rec])
        \<and> er_timestamp rec = now \<and> er_tool_name rec = tn
        \<and> er_params rec = dict_without filled (str_of ''vega_spec'')
        \<and> er_result rec = dict_without r (str_of ''vega_spec'')
        \<and> er_success rec = ok
        \<and> \<not> dict_has (er_params rec) (str_of ''vega_spec'')
        \<and> \<not> dict_has (er_result rec) (str_of ''vega_spec'')"
  by (rule exI [of _ "\<lparr>er_timestamp = now, er_tool_name = tn,
        er_params = dict_without filled (str_of ''vega_spec''),
        er_result = dict_without r (str_of ''vega_spec''), er_success = ok\<rparr>"])
     (simp add: logged_def dict_without_has)

lemma logged_length:
  "length (execution_history st) \<le> 100 \<Longrightarrow> length (execution_history (logged st now tn filled r ok)) \<le> 100"
  by (simp add: logged_def limit_history_length)

text \<open>
  C6 (as amended).  A call that reaches the tool body, whether the body returns or
  raises, appends exactly one record with the time, the tool name, the parameters and
  the result, both without their \<^verbatim>\<open>'vega_spec'\<close> entry, and a success flag; a call with
  an unknown tool or with failed validation leaves the log as it is; and a log of at
  most 100 records has at most 100 records after the call.
\<close>

theorem execution_log_effect:
  "\<exists>result st'.
     execute reg now st (PStr name) ps validate = Inr (PDict result, st')
     \<and> (case map_of reg name of
          None \<Rightarrow> execution_history st' = execution_history st
        | Some info \<Rightarrow>
            if validate \<and> missing_required info ps \<noteq> []
            then execution_history st' = execution_history st
            else (\<exists>rec.
                    execution_history st' = limit_history (execution_history st @ [rec])
                  \<and> er_timestamp rec = now \<and> er_tool_name rec = PStr name
                  \<and> er_params rec = dict_without (fill_default_params info ps) (str_of ''vega_spec'')
                  \<and> er_result rec = dict_without result (str_of ''vega_spec'')
                  \<and> er_success rec = (tool_fn info (fill_default_params info ps) = Inr (PDict result))
                  \<and> \<not> dict_has (er_params rec) (str_of ''vega_spec'')
                  \<and> \<not> dict_has (er_result rec) (str_of ''vega_spec'')))
     \<and> (length (execution_history st) \<le> 100 \<longrightarrow> length (execution_history st') \<le> 100)"
proof (cases "map_of reg name")
  case None
  then show ?thesis by (simp add: execute_unknown not_found_result_def)
next
  case (Some info)
  show ?thesis
  proof (cases "validate \<and> missing_required info ps \<noteq> []")
    case True
    then show ?thesis using Some by (simp add: execute_invalid)
  next
    case False
    then have ok: "validate \<longrightarrow> missing_required info ps = []" by simp
    from execute_invoked_logged [OF Some ok]
    obtain r where r: "execute reg now st (PStr name) ps validate =
           Inr (PDict r, logged st now (PStr name) (fill_default_params info ps) r
                  (tool_fn info (fill_default_params info ps) = Inr (PDict r)))"
      by blast
    have nc: "(validate \<and> missing_required info ps \<noteq> []) = False"
      using False by simp
    show ?thesis
      using logged_record logged_length
      by (simp add: r Some nc)
  qed
qed

theorem execution_log_effect_witness:
  "length (execution_history new_executor) \<le> 100
   \<and> (\<exists>result st'.
        execute (tool_registry modelled_impl) 7 new_executor (PStr (str_of ''compare_groups''))
          [(str_of ''vega_spec'', PDict []), (str_of ''group_field'', PStr (str_of ''g''))] True
          = Inr (PDict result, st')
        \<and> (\<exists>rec. execution_history st' = limit_history (execution_history new_executor @ [rec])
               \<and> er_timestamp rec = 7 \<and> er_tool_name rec = PStr (str_of ''compare_groups'')
               \<and> \<not> dict_has (er_params rec) (str_of ''vega_spec'')
               \<and> \<not> dict_has (er_result rec) (str_of ''vega_spec''))
        \<and> length (execution_history st') \<le> 100)"
proof -
  let ?ps = "[(str_of ''vega_spec'', PDict []), (str_of ''group_field'', PStr (str_of ''g''))]"
  let ?info = "\<lparr>tool_fn = modelled_impl (str_of ''bar_chart_tools.compare_groups''), category = str_of ''analysis'',
           description = [32452, 38388, 23545, 27604],
           params = [(str_of ''vega_spec'', \<lparr>ptype = str_of ''dict'', required = True, dflt = None\<rparr>),
                     (str_of ''group_field'', \<lparr>ptype = str_of ''str'', required = True, dflt = None\<rparr>)]\<rparr>"
  have l: "map_of (tool_registry modelled_impl) (str_of ''compare_groups'') = Some ?info"
    by (rule lookup_compare_groups)
  have m: "missing_required ?info ?ps = []"
    by (simp add: missing_required_def dict_has_def str_of_def)
  have h: "length (execution_history new_executor) \<le> 100"
    by (simp add: new_executor_def)
  from execution_log_effect [of "tool_registry modelled_impl" 7 new_executor "str_of ''compare_groups''" ?ps True]
  obtain result st' where
    e: "execute (tool_registry modelled_impl) 7 new_executor (PStr (str_of ''compare_groups'')) ?ps True
          = Inr (PDict result, st')"
    and c: "\<exists>rec. execution_history st' = limit_history (execution_history new_executor @ [rec])
               \<and> er_timestamp rec = 7 \<and> er_tool_name rec = PStr (str_of ''compare_groups'')
               \<and> er_params rec = dict_without (fill_default_params ?info ?ps) (str_of ''vega_spec'')
               \<and> er_result rec = dict_without result (str_of ''vega_spec'')
               \<and> er_success rec = (tool_fn ?info (fill_default_params ?info ?ps) = Inr (PDict result))
               \<and> \<not> dict_has (er_params rec) (str_of ''vega_spec'')
               \<and> \<not> dict_has (er_result rec) (str_of ''vega_spec'')"
    and b: "length (execution_history st') \<le> 100"
    unfolding l using m h by auto
  from c have "\<exists>rec. execution_history st' = limit_history (execution_history new_executor @ [rec])
               \<and> er_timestamp rec = 7 \<and> er_tool_name rec = PStr (str_of ''compare_groups'')
               \<and> \<not> dict_has (er_params rec) (str_of ''vega_spec'')
               \<and> \<not> dict_has (er_result rec) (str_of ''vega_spec'')"
    by blast
  with h e b show ?thesis by blast
qed

text \<open>The claim as stated fails: a call with an unknown tool name returns the
  \<^verbatim>\<open>not found\<close> result and the log is still empty.\<close>

theorem unknown_tool_not_logged:
  "execute (tool_registry modelled_impl) 7 new_executor (PStr (str_of ''no_such_tool'')) [] True
     = Inr (not_found_result (tool_registry modelled_impl) (PStr (str_of ''no_such_tool'')), new_executor)
   \<and> execution_history new_executor = []"
  by (simp add: execute_unknown lookup_unknown new_executor_def)

section \<open>Properties of the structured-output extraction\<close>

lemma str_find_takeWhile:
  "str_find c s = (if c \<in> set s then int (length (takeWhile (\<lambda>x. x \<noteq> c) s)) else - 1)"
  by (induction s) (auto simp add: Let_def)

lemma str_rfind_takeWhile:
  "str_rfind c s =
     (if c \<in> set s then int (length s) - 1 - int (length (takeWhile (\<lambda>x. x \<noteq> c) (rev s))) else - 1)"
  by (simp add: str_rfind_def str_find_takeWhile Let_def)

lemma length_takeWhile_less: "c \<in> set s \<Longrightarrow> length (takeWhile (\<lambda>x. x \<noteq> c) s) < length s"
  by (induction s) auto

lemma takeWhile_neq_append_notin:
  "c \<notin> set xs \<Longrightarrow> takeWhile (\<lambda>x. x \<noteq> c) (xs @ ys) = xs @ takeWhile (\<lambda>x. x \<noteq> c) ys"
  by (induction xs) auto

lemma takeWhile_neq_append_in:
  "c \<in> set xs \<Longrightarrow> takeWhile (\<lambda>x. x \<noteq> c) (xs @ ys) = takeWhile (\<lambda>x. x \<noteq> c) xs"
  by (induction xs) auto

lemma dropWhile_neq_notin: "c \<notin> set xs \<Longrightarrow> dropWhile (\<lambda>x. x \<noteq> c) xs = []"
  by (induction xs) auto

lemma nth_length_takeWhile_neq:
  "c \<in> set xs \<Longrightarrow> xs ! length (takeWhile (\<lambda>x. x \<noteq> c) xs) = c"
  by (induction xs) auto

lemma slice_first_to_last:
  assumes "opn \<noteq> cls"
  shows "(if str_find opn text \<noteq> - 1 \<and> str_rfind cls text \<noteq> - 1 \<and> str_rfind cls text > str_find opn text
          then Some (str_slice text (str_find opn text) (str_rfind cls text + 1)) else None)
         = first_to_last opn cls text"
proof -
  define a where "a = takeWhile (\<lambda>x. x \<noteq> opn) text"
  define t1 where "t1 = dropWhile (\<lambda>x. x \<noteq> opn) text"
  have decomp: "text = a @ t1" by (simp add: a_def t1_def)
  have len: "length text = length a + length t1"
    by (simp add: a_def t1_def length_append [symmetric] del: length_append)
  show ?thesis
  proof (cases "opn \<in> set text")
    case False
    then have "t1 = []" by (simp add: t1_def dropWhile_neq_notin)
    then show ?thesis using False
      by (simp add: str_find_takeWhile first_to_last_def t1_def [symmetric])
  next
    case True
    then have t1_ne: "t1 \<noteq> []" by (simp add: t1_def)
    have start: "str_find opn text = int (length a)"
      using True by (simp add: str_find_takeWhile a_def)
    have hd_t1: "hd t1 = opn" using t1_ne unfolding t1_def by (metis (mono_tags, lifting) hd_dropWhile)
    show ?thesis
    proof (cases "cls \<in> set t1")
      case False
      then have span: "dropWhile (\<lambda>x. x \<noteq> cls) (rev t1) = []" by (simp add: dropWhile_neq_notin)
      have "str_rfind cls text = - 1 \<or> str_rfind cls text < int (length a)"
      proof (cases "cls \<in> set a")
        case False
        with \<open>cls \<notin> set t1\<close> show ?thesis by (simp add: str_rfind_takeWhile decomp)
      next
        case True
        have "takeWhile (\<lambda>x. x \<noteq> cls) (rev text) = rev t1 @ takeWhile (\<lambda>x. x \<noteq> cls) (rev a)"
          using \<open>cls \<notin> set t1\<close> by (simp add: decomp takeWhile_neq_append_notin)
        moreover have "length t1 > 0" using t1_ne by simp
        ultimately show ?thesis using True
          by (simp add: str_rfind_takeWhile decomp)
      qed
      then show ?thesis using span
        by (auto simp add: start first_to_last_def t1_def [symmetric])
    next
      case True
      define b where "b = takeWhile (\<lambda>x. x \<noteq> cls) (rev t1)"
      have tw: "takeWhile (\<lambda>x. x \<noteq> cls) (rev text) = b"
        using True by (simp add: decomp b_def takeWhile_neq_append_in)
      have blt: "length b < length t1"
        using length_takeWhile_less [of cls "rev t1"] True by (simp add: b_def)
      have cls_text: "cls \<in> set text" using True by (simp add: decomp)
      have e: "str_rfind cls text = int (length a) + int (length t1) - 1 - int (length b)"
        using cls_text by (simp add: str_rfind_takeWhile tw len)
      have b_ne: "length b \<noteq> length t1 - 1"
      proof
        assume eq: "length b = length t1 - 1"
        have "rev t1 ! length b = cls"
          unfolding b_def using True by (simp add: nth_length_takeWhile_neq)
        moreover have "rev t1 ! (length t1 - 1) = hd t1"
          using t1_ne by (simp add: rev_nth hd_conv_nth)
        ultimately show False using eq hd_t1 assms by simp
      qed
      have gt: "str_rfind cls text > str_find opn text"
        using blt b_ne by (simp add: e start)
      have sl: "str_slice text (str_find opn text) (str_rfind cls text + 1) = take (length t1 - length b) t1"
      proof -
        have n: "nat (str_rfind cls text + 1 - str_find opn text) = length t1 - length b"
          using blt by (simp add: e start)
        have d: "drop (nat (str_find opn text)) text = t1"
          by (simp add: start t1_def a_def dropWhile_eq_drop)
        show ?thesis by (simp only: str_slice_def n d)
      qed
      have sp: "rev (dropWhile (\<lambda>x. x \<noteq> cls) (rev t1)) = take (length t1 - length b) t1"
        by (simp add: dropWhile_eq_drop b_def rev_drop)
      have ne: "take (length t1 - length b) t1 \<noteq> []" using blt t1_ne by simp
      have c1: "str_find opn text \<noteq> - 1" by (simp add: start)
      have c2: "str_rfind cls text \<noteq> - 1" using gt by (simp add: start)
      have lhs: "(if str_find opn text \<noteq> - 1 \<and> str_rfind cls text \<noteq> - 1
                    \<and> str_rfind cls text > str_find opn text
                 then Some (str_slice text (str_find opn text) (str_rfind cls text + 1)) else None)
               = Some (take (length t1 - length b) t1)"
        using c1 c2 gt by (simp only: sl if_True simp_thms)
      have rhs: "first_to_last opn cls text = Some (take (length t1 - length b) t1)"
        using ne True by (simp add: first_to_last_def t1_def [symmetric] sp Let_def)
      show ?thesis by (simp only: lhs rhs)
    qed
  qed
qed


lemma extract_array_empty: "extract_array loads text = []"
  by (simp add: extract_array_def Let_def)

lemma extract_dict_first_to_last:
  "extract_dict loads text =
     (case first_to_last 123 125 text of
        None \<Rightarrow> None
      | Some s \<Rightarrow> (case loads s of Some (PDict d) \<Rightarrow> if d \<noteq> [] then Some d else None | _ \<Rightarrow> None))"
proof -
  have ne: "(123::nat) \<noteq> 125" by simp
  note sf = slice_first_to_last [OF ne, of "text", symmetric]
  show ?thesis
    unfolding sf
    by (auto simp add: extract_dict_def Let_def safe_json_loads_def is_dict_def
        split: option.splits pyval.splits)
qed

text \<open>
  C7 (as amended).  For every text, the extraction parses the part of the text that runs
  from the first \<^verbatim>\<open>{\<close> to the last \<^verbatim>\<open>}\<close> after it and returns the value when it is a JSON
  object; in every other case (no such part, a part that does not parse, a value that is
  not an object, and whatever the search for \<^verbatim>\<open>[...]\<close> finds) it returns an empty
  object.
\<close>

theorem extract_json_first_to_last:
  "extract_json_from_text loads text =
     (case first_to_last 123 125 text of
        None \<Rightarrow> []
      | Some s \<Rightarrow> (case loads s of Some (PDict d) \<Rightarrow> d | _ \<Rightarrow> []))"
  by (simp add: extract_json_from_text_def extract_dict_first_to_last extract_array_empty
      split: option.splits pyval.splits)

text \<open>The claim as stated fails on a text with two objects: the first balanced object is
  \<^verbatim>\<open>{"a":1}\<close>, which parses to a non-empty object, and the extraction returns the
  empty object.\<close>

theorem extract_json_not_first_balanced:
  \<open>first_balanced 123 125 (str_of ''{"a":1} {"b":2}'') = Some (str_of ''{"a":1}'')
   \<and> json_loads (str_of ''{"a":1}'') = Some (PDict [(str_of ''a'', PInt 1)])
   \<and> extract_json_from_text json_loads (str_of ''{"a":1} {"b":2}'') = []\<close>
  by code_simp

section \<open>Properties of the goal-oriented engine\<close>

















subsection \<open>Two runs\<close>

lemma str_of_eq_iff: "(str_of a = str_of b) = (a = b)"
  by (simp add: str_of_def inj_map_eq_map [OF inj_of_char])

lemmas dict_defs = dict_get_def dict_get_default_def dict_get_none_def dict_has_def dict_without_def

lemma compare_groups_example:
  "compare_groups [(str_of ''group_field'', PStr (str_of ''g'')), (str_of ''vega_spec'', example_spec)]
     = Inr (PDict compare_result)"
  by (simp add: compare_groups_def compare_result_def binds_exactly_def
      example_spec_def example_spec_grouped_def dict_defs str_of_eq_iff Let_def)

lemma execute_example:
  "execute (tool_registry modelled_impl) t ex (PStr (str_of ''compare_groups''))
      [(str_of ''group_field'', PStr (str_of ''g'')), (str_of ''vega_spec'', example_spec)] True
     = Inr (PDict compare_result,
            logged ex t (PStr (str_of ''compare_groups''))
              [(str_of ''group_field'', PStr (str_of ''g'')), (str_of ''vega_spec'', example_spec)]
              compare_result True)"
proof -
  let ?ps = "[(str_of ''group_field'', PStr (str_of ''g'')), (str_of ''vega_spec'', example_spec)]"
  let ?info = "\<lparr>tool_fn = modelled_impl (str_of ''bar_chart_tools.compare_groups''), category = str_of ''analysis'',
           description = [32452, 38388, 23545, 27604],
           params = [(str_of ''vega_spec'', \<lparr>ptype = str_of ''dict'', required = True, dflt = None\<rparr>),
                     (str_of ''group_field'', \<lparr>ptype = str_of ''str'', required = True, dflt = None\<rparr>)]\<rparr>"
  have l: "map_of (tool_registry modelled_impl) (str_of ''compare_groups'') = Some ?info"
    by (rule lookup_compare_groups)
  have m: "True \<longrightarrow> missing_required ?info ?ps = []"
    by (simp add: missing_required_def dict_has_def str_of_eq_iff)
  have f: "fill_default_params ?info ?ps = ?ps"
    by (simp add: fill_default_params_def)
  have b: "tool_fn ?info ?ps = Inr (PDict compare_result)"
    by (simp add: modelled_impl_def compare_groups_example)
  show ?thesis
    unfolding execute_invoked [OF l m] f b by simp
qed

lemma compare_result_lookups:
  "dict_get_none compare_result (str_of ''success'') = PBool True"
  "dict_has compare_result (str_of ''vega_spec'')"
  "dict_get_none compare_result (str_of ''vega_spec'') = example_spec_grouped"
  by (simp_all add: compare_result_def dict_defs str_of_eq_iff)

lemma decision_compare_lookups:
  "dict_get_none decision_compare (str_of ''tool_call'') =
     PDict [(str_of ''tool'', PStr (str_of ''compare_groups'')),
            (str_of ''params'', PDict [(str_of ''group_field'', PStr (str_of ''g''))])]"
  "dict_get_default decision_compare (str_of ''goal_achieved'') (PBool False) = PBool False"
  by (simp_all add: decision_compare_def dict_defs str_of_eq_iff)

lemma tool_call_lookups:
  "dict_get [(str_of ''tool'', PStr (str_of ''compare_groups'')),
             (str_of ''params'', PDict [(str_of ''group_field'', PStr (str_of ''g''))])] (str_of ''tool'')
     = Some (PStr (str_of ''compare_groups''))"
  "dict_get_default [(str_of ''tool'', PStr (str_of ''compare_groups'')),
             (str_of ''params'', PDict [(str_of ''group_field'', PStr (str_of ''g''))])] (str_of ''params'') d
     = PDict [(str_of ''group_field'', PStr (str_of ''g''))]"
  "dict_has [(str_of ''tool'', PStr (str_of ''compare_groups'')),
             (str_of ''params'', PDict [(str_of ''group_field'', PStr (str_of ''g''))])] (str_of ''params'')"
  "dict_set [(str_of ''group_field'', PStr (str_of ''g''))] (str_of ''vega_spec'') v
     = [(str_of ''group_field'', PStr (str_of ''g'')), (str_of ''vega_spec'', v)]"
  by (simp_all add: dict_defs str_of_eq_iff)

text \<open>The tool call of the example, from a state whose current specification is the
  example.\<close>

lemma run_tool_example:
  assumes "ls_current_spec s = example_spec"
  shows "\<exists>r' ex'. run_tool e (tool_registry modelled_impl) n decision_compare s r =
           Inr (after_tool e (PStr (str_of ''compare_groups'')) compare_result
                  (s\<lparr>ls_world := (ls_world s)\<lparr>tool_executor := ex'\<rparr>\<rparr>) r')
         \<and> it_success r' = it_success r \<and> it_images r' = it_images r"
  using assms
  apply (simp add: run_tool_def decision_compare_lookups tool_call_lookups execute_example Let_def
      str_of_eq_iff)
  apply (intro exI conjI)
    apply (rule refl)
   apply simp_all
  done

text \<open>The round of the example in which the render fails.\<close>

lemma render_fails_round:
  assumes "ls_current_spec s = example_spec" and "vlm_calls (ls_world s) = 0"
  shows "\<exists>s'. goal_iteration env_render_fails (tool_registry modelled_impl) sp 0 s = Inr (Continue, s')
          \<and> ls_current_spec s' = example_spec_grouped
          \<and> ls_current_image s' = ls_current_image s
          \<and> map it_success (ls_iterations s') = map it_success (ls_iterations s) @ [False]
          \<and> ls_messages s' = ls_messages s @
               [assistant_turn (str_of ''use the tool''),
                user_turn (render_failed_text (PStr (str_of ''compare_groups''))
                             (PStr (str_of ''vega-cli execution failed''))) (ls_current_image s)]"
proof -
  let ?e = env_render_fails
  let ?s1 = "s\<lparr>ls_messages := ls_messages s @ [assistant_turn (str_of ''use the tool'')],
               ls_world := (ls_world s)\<lparr>vlm_calls := Suc (vlm_calls (ls_world s))\<rparr>\<rparr>"
  let ?r = "new_iteration_record (Suc 0) (clock ?e (Suc 0)) decision_compare (str_of ''use the tool'')
              (ls_current_image s)"
  have v: "vlm ?e (vlm_calls (ls_world s)) ms sp = VlmOk (str_of ''use the tool'') decision_compare" for ms
    using assms(2) by (simp add: env_render_fails_def env_tool_then_done_def)
  have rf: "render ?e i spec = RenderFail (PStr (str_of ''vega-cli execution failed''))" for i spec
    by (simp add: env_render_fails_def env_tool_then_done_def)
  have lg: "log_tool_info decision_compare = Inr ()"
    by (simp add: log_tool_info_def decision_compare_lookups Let_def)
  have s1: "ls_current_spec ?s1 = example_spec" using assms(1) by simp
  from run_tool_example [OF s1, of ?e "Suc 0" ?r]
  obtain r' ex' where rt: "run_tool ?e (tool_registry modelled_impl) (Suc 0) decision_compare ?s1 ?r =
           Inr (after_tool ?e (PStr (str_of ''compare_groups'')) compare_result
                  (?s1\<lparr>ls_world := (ls_world ?s1)\<lparr>tool_executor := ex'\<rparr>\<rparr>) r')"
    and ok: "it_success r' = it_success ?r" by blast
  show ?thesis
    by (simp add: goal_iteration_def Let_def v lg decision_compare_lookups rt after_tool_def
        compare_result_lookups rf user_turn_def)
qed


text \<open>
  C2 (the code departs from the claim).  The Endpoint asks for \<^verbatim>\<open>compare_groups\<close>, the
  tool succeeds and returns a new specification, the render of it fails.  The engine
  appends the user turn that reports the render failure with the old image and marks
  the record unsuccessful, and the image stays the old one; but the final specification
  is the new one, not the one the tool was given.
\<close>

theorem render_failure_keeps_new_spec:
  "final_state_of
     (goal_execute env_render_fails (tool_registry modelled_impl) (str_of ''group by g'')
        example_spec (str_of ''aW1hZ2Uw'') (PStr (str_of ''bar_chart'')) (Some example_session)
        example_world)
     = Some (example_spec_grouped, str_of ''aW1hZ2Uw'', [False])
   \<and> example_spec_grouped \<noteq> example_spec
   \<and> transcript_of
     (goal_execute env_render_fails (tool_registry modelled_impl) (str_of ''group by g'')
        example_spec (str_of ''aW1hZ2Uw'') (PStr (str_of ''bar_chart'')) (Some example_session)
        example_world)
     = Some [user_turn (initial_text (str_of ''group by g'')) (str_of ''aW1hZ2Uw''),
             assistant_turn (str_of ''use the tool''),
             user_turn (render_failed_text (PStr (str_of ''compare_groups''))
                          (PStr (str_of ''vega-cli execution failed''))) (str_of ''aW1hZ2Uw'')]"
proof -
  let ?e = env_render_fails
  let ?sp = "assemble_system_prompt ?e (PStr (str_of ''bar_chart''))"
  let ?s0 = "\<lparr>ls_messages = [user_turn (initial_text (str_of ''group by g'')) (str_of ''aW1hZ2Uw'')],
              ls_iterations = [], ls_current_spec = example_spec,
              ls_current_image = str_of ''aW1hZ2Uw'', ls_world = example_world\<rparr>"
  have "ls_current_spec ?s0 = example_spec" and "vlm_calls (ls_world ?s0) = 0"
    by (simp_all add: example_world_def)
  from render_fails_round [OF this, of ?sp]
  obtain s' where st: "goal_iteration ?e (tool_registry modelled_impl) ?sp 0 ?s0 = Inr (Continue, s')"
    and sp: "ls_current_spec s' = example_spec_grouped"
    and im: "ls_current_image s' = str_of ''aW1hZ2Uw''"
    and it: "map it_success (ls_iterations s') = [False]"
    and ms: "ls_messages s' = [user_turn (initial_text (str_of ''group by g'')) (str_of ''aW1hZ2Uw''),
             assistant_turn (str_of ''use the tool''),
             user_turn (render_failed_text (PStr (str_of ''compare_groups''))
                          (PStr (str_of ''vega-cli execution failed''))) (str_of ''aW1hZ2Uw'')]"
    by auto
  have mx: "max_goal_oriented_iterations ?e = Suc 0"
    by (simp add: env_render_fails_def env_tool_then_done_def)
  have ex: "goal_execute ?e (tool_registry modelled_impl) (str_of ''group by g'')
        example_spec (str_of ''aW1hZ2Uw'') (PStr (str_of ''bar_chart'')) (Some example_session)
        example_world
      = Inr (\<lparr>gr_success = True, gr_mode = str_of ''goal_oriented'',
               gr_iterations = ls_iterations s', gr_final_spec = ls_current_spec s',
               gr_final_image = ls_current_image s'\<rparr>,
             Some (example_session\<lparr>goal_oriented_messages := Some (ls_messages s'),
                                   goal_oriented_iterations := Some (ls_iterations s')\<rparr>),
             ls_world s')"
    by (simp add: goal_execute_def Let_def example_session_def mx st)
  have ne: "example_spec_grouped \<noteq> example_spec"
    by (simp add: example_spec_grouped_def example_spec_def)
  show ?thesis
    by (simp add: ex final_state_of_def transcript_of_def sp im it ms ne)
qed

text \<open>A round without tool call and without achievement adds the assistant turn and
  nothing else to the transcript.\<close>

lemma idle_round:
  "goal_iteration env_idle_two (tool_registry modelled_impl) sp i s =
     Inr (Continue,
          s\<lparr>ls_messages := ls_messages s @ [assistant_turn (str_of ''hm'')],
            ls_world := (ls_world s)\<lparr>vlm_calls := Suc (vlm_calls (ls_world s))\<rparr>,
            ls_iterations := ls_iterations s @
              [new_iteration_record (i + 1) (clock env_idle_two (i + 1)) decision_idle (str_of ''hm'')
                 (ls_current_image s)]\<rparr>)"
proof -
  have v: "vlm env_idle_two n ms sp = VlmOk (str_of ''hm'') decision_idle" for n ms
    by (simp add: env_idle_two_def env_idle_def env_tool_then_done_def)
  have tc: "dict_get_none decision_idle (str_of ''tool_call'') = PNone"
    and ga: "dict_get_default decision_idle (str_of ''goal_achieved'') (PBool False) = PBool False"
    by (simp_all add: decision_idle_def dict_defs str_of_eq_iff)
  show ?thesis
    by (simp add: goal_iteration_def Let_def v log_tool_info_def tc ga)
qed

text \<open>
  C3 (the code departs from the claim).  The Endpoint answers two rounds without a tool
  call and without achievement: the transcript is a user turn followed by two assistant
  turns.
\<close>

theorem two_assistant_turns_in_a_row:
  "transcript_of
     (goal_execute env_idle_two (tool_registry modelled_impl) (str_of ''group by g'')
        example_spec (str_of ''aW1hZ2Uw'') (PStr (str_of ''bar_chart'')) (Some example_session)
        example_world)
     = Some [user_turn (initial_text (str_of ''group by g'')) (str_of ''aW1hZ2Uw''),
             assistant_turn (str_of ''hm''), assistant_turn (str_of ''hm'')]
   \<and> \<not> alternating [user_turn (initial_text (str_of ''group by g'')) (str_of ''aW1hZ2Uw''),
             assistant_turn (str_of ''hm''), assistant_turn (str_of ''hm'')]"
proof -
  have mx: "max_goal_oriented_iterations env_idle_two = Suc (Suc 0)"
    by (simp add: env_idle_two_def env_idle_def env_tool_then_done_def)
  show ?thesis
    by (simp add: goal_execute_def Let_def example_session_def mx idle_round transcript_of_def
        assistant_turn_def)
qed

section \<open>Properties of the session manager\<close>













section \<open>A tool body that shares objects with its caller\<close>

text \<open>
  C8 (the code departs from the claim).  \<^verbatim>\<open>highlight_trend\<close> on a line chart without
  layers: the objects of the caller are as they were after the call and the returned
  specification is a new object, but the \<^verbatim>\<open>encoding\<close> of its first layer is the
  \<^verbatim>\<open>encoding\<close> object of the caller's specification itself (address 1), not a copy; so
  a caller that then sets a colour in the encoding of the returned layer finds the
  colour in the encoding of its own specification.
\<close>

theorem highlight_trend_shares_encoding:
  "(case returned_spec (highlight_trend 10 (HRef 0) (HStr (str_of ''increasing'')) line_chart_heap) of
      None \<Rightarrow> False
    | Some (spec, h) \<Rightarrow>
        follow h spec [Key (str_of ''layer''), Pos 0, Key (str_of ''encoding'')] = Some (HRef 1)
        \<and> take 4 h = line_chart_heap
        \<and> spec = HRef 14
        \<and> (case write_through h spec [Key (str_of ''layer''), Pos 0, Key (str_of ''encoding'')]
                   (str_of ''color'') (HStr (str_of ''red'')) of
               None \<Rightarrow> False
             | Some h' \<Rightarrow>
                 follow h' (HRef 0) [Key (str_of ''encoding''), Key (str_of ''color'')]
                   = Some (HStr (str_of ''red''))))
   \<and> follow line_chart_heap (HRef 0) [Key (str_of ''encoding'')] = Some (HRef 1)
   \<and> follow line_chart_heap (HRef 0) [Key (str_of ''encoding''), Key (str_of ''color'')] = None
   \<and> length line_chart_heap = 4"
  by code_simp

theorem highlight_trend_shares_encoding_witness:
  "h_truthy line_chart_heap (HStr (str_of ''v'')) \<and> h_truthy line_chart_heap (HStr (str_of ''t''))
   \<and> returned_spec (highlight_trend 10 (HRef 0) (HStr (str_of ''increasing'')) line_chart_heap) \<noteq> None"
proof -
  have "h_truthy line_chart_heap (HStr (str_of ''v''))" "h_truthy line_chart_heap (HStr (str_of ''t''))"
    by (simp_all add: h_truthy_def str_of_def)
  moreover have "returned_spec (highlight_trend 10 (HRef 0) (HStr (str_of ''increasing'')) line_chart_heap) \<noteq> None"
    using highlight_trend_shares_encoding by (auto split: option.splits)
  ultimately show ?thesis by simp
qed

end
